theory Spec2Isabelle
  imports Complex_Main "HOL-Library.Multiset"
begin

section \<open>JavaScript values used by the workflow scripts\<close>

text \<open>
  The scripts are JavaScript. Numbers are modelled as mathematical reals. The rounding
  of IEEE doubles is modelled where no clamp follows the arithmetic, in the weighted
  total of the scorer; the one non-finite value the scripts can produce, the
  \<open>NaN\<close> of a division \<open>0 / 0\<close>, is modelled where it can occur. Strings are
  lists of 8-bit characters, so \<open>toLowerCase\<close>, \<open>trim\<close> and the character classes
  \<open>\s\<close>, \<open>\w\<close> are those of ASCII text. A thrown error is a value carrying its message.
\<close>

datatype exn = Error string

fun message :: "exn \<Rightarrow> string" where
  "message (Error m) = m"

datatype log_entry = Warning string | Failed string

definition startsWith :: "string \<Rightarrow> string \<Rightarrow> bool" where
  "startsWith s k = (take (length k) s = k)"

definition endsWith :: "string \<Rightarrow> string \<Rightarrow> bool" where
  "endsWith s k = (length k \<le> length s \<and> drop (length s - length k) s = k)"

fun includes_str :: "string \<Rightarrow> string \<Rightarrow> bool" where
  "includes_str [] k = (k = [])"
| "includes_str (c # s) k = (startsWith (c # s) k \<or> includes_str s k)"

definition lowerChar :: "char \<Rightarrow> char" where
  "lowerChar c =
     (if 65 \<le> (of_char c :: nat) \<and> (of_char c :: nat) \<le> 90
      then char_of ((of_char c :: nat) + 32) else c)"

definition toLowerCase :: "string \<Rightarrow> string" where
  "toLowerCase s = map lowerChar s"

definition isSpace :: "char \<Rightarrow> bool" where
  "isSpace c = ((of_char c :: nat) \<in> {9, 10, 11, 12, 13, 32})"

definition trim :: "string \<Rightarrow> string" where
  "trim s = rev (dropWhile isSpace (rev (dropWhile isSpace s)))"

text \<open>\<open>s.split(d)\<close> for a one-character separator: \<open>"".split(d)\<close> is \<open>[""]\<close>.\<close>

fun splitOn :: "char \<Rightarrow> string \<Rightarrow> string list" where
  "splitOn d [] = [[]]"
| "splitOn d (c # s) =
     (if c = d then [] # splitOn d s
      else (case splitOn d s of [] \<Rightarrow> [[c]] | l # ls \<Rightarrow> (c # l) # ls))"

definition lines_of :: "string \<Rightarrow> string list" where
  "lines_of p = splitOn (CHR 0x0A) p"

text \<open>
  A number as the result of a JavaScript division: \<open>0 / 0\<close> is \<open>NaN\<close>, and every
  comparison with \<open>NaN\<close> is false. The divisions modelled with \<open>js_div\<close> divide
  sizes, so a zero divisor comes with a zero dividend or yields an infinity that
  compares as larger than every finite number.
\<close>

datatype jsnum = Fin real | NaN | PosInf

definition js_div :: "nat \<Rightarrow> nat \<Rightarrow> jsnum" where
  "js_div a b = (if b = 0 then (if a = 0 then NaN else PosInf) else Fin (real a / real b))"

fun js_gt :: "jsnum \<Rightarrow> real \<Rightarrow> bool" where
  "js_gt (Fin x) t = (x > t)"
| "js_gt NaN t = False"
| "js_gt PosInf t = True"

subsection \<open>Rounding to a double\<close>

text \<open>
  The result of an arithmetic operation on doubles is the exact result rounded to
  the nearest double, ties to the even significand. A double is an integer multiple
  of the quantum of its binade: for \<open>2^e \<le> |x| < 2^(e+1)\<close> the quantum is
  \<open>2^(e-52)\<close>, and \<open>2^(-1074)\<close> below the normal range. Magnitudes beyond the range
  of doubles (overflow to \<open>Infinity\<close>) are not modelled.
\<close>

definition round_even :: "real \<Rightarrow> int" where
  "round_even y =
     (let f = \<lfloor>y\<rfloor>; r = y - of_int f
      in if r < 1 / 2 then f else if r > 1 / 2 then f + 1
         else if even f then f else f + 1)"

text \<open>The exponent \<open>e\<close> of a magnitude of at least 1, found by halving.\<close>

function exp_up :: "real \<Rightarrow> int \<Rightarrow> int" where
  "exp_up x e = (if x < 2 then e else exp_up (x / 2) (e + 1))"
  by pat_completeness auto
termination
proof (relation "measure (\<lambda>(x, e). nat \<lfloor>x\<rfloor>)")
  show "wf (measure (\<lambda>(x :: real, e :: int). nat \<lfloor>x\<rfloor>))" by simp
next
  fix x :: real and e :: int
  assume large: "\<not> x < 2"
  then have "x / 2 \<le> x - 1" by simp
  then have "\<lfloor>x / 2\<rfloor> \<le> \<lfloor>x - 1\<rfloor>" by (rule floor_mono)
  moreover have "2 \<le> \<lfloor>x\<rfloor>" using large by (simp add: le_floor_iff)
  ultimately show "((x / 2, e + 1), (x, e)) \<in> measure (\<lambda>(x, e). nat \<lfloor>x\<rfloor>)"
    by simp
qed

text \<open>
  The exponent of a positive magnitude below 1, found by doubling; it stops at
  -1022, the least exponent of a normal double.
\<close>

function exp_down :: "real \<Rightarrow> int \<Rightarrow> int" where
  "exp_down x e = (if 1 \<le> x \<or> e \<le> - 1022 then e else exp_down (2 * x) (e - 1))"
  by pat_completeness auto
termination
  by (relation "measure (\<lambda>(x, e). nat (e + 1022))") auto

declare exp_up.simps [simp del]

declare exp_down.simps [simp del]

definition binade :: "real \<Rightarrow> int" where
  "binade x = (if 1 \<le> \<bar>x\<bar> then exp_up \<bar>x\<bar> 0 else exp_down \<bar>x\<bar> 0)"

definition round_double :: "real \<Rightarrow> real" where
  "round_double x =
     (if x = 0 then 0
      else (let q = 2 powi (binade x - 52) in of_int (round_even (x / q)) * q))"

text \<open>The operators \<open>*\<close> and \<open>+\<close> on doubles.\<close>

definition js_mul :: "real \<Rightarrow> real \<Rightarrow> real" where
  "js_mul a b = round_double (a * b)"

definition js_add :: "real \<Rightarrow> real \<Rightarrow> real" where
  "js_add a b = round_double (a + b)"

section \<open>PRScorer (scripts/pr-scorer.js)\<close>

subsection \<open>Data\<close>

text \<open>A changed file as the hosting platform lists it; \<open>patch\<close> is absent for binary files.\<close>

record pr_file =
  filename :: string
  status :: string
  patch :: "string option"

text \<open>\<open>if (file.patch)\<close>: an absent patch and the empty string are both falsy.\<close>

definition patch_text :: "pr_file \<Rightarrow> string option" where
  "patch_text f = (case patch f of None \<Rightarrow> None | Some p \<Rightarrow> (if p = [] then None else Some p))"

text \<open>
  A pull request as the platform returns it: \<open>head_ref\<close> is \<open>pr.head.ref\<close>,
  \<open>author\<close> is \<open>pr.user.login\<close>.
\<close>

record pull =
  number :: nat
  title :: string
  head_ref :: string
  author :: string
  created_at :: string
  updated_at :: string

record pr_summary =
  sm_number :: nat
  sm_title :: string
  sm_author :: string
  sm_created_at :: string
  sm_updated_at :: string

definition summary_of :: "pull \<Rightarrow> pr_summary" where
  "summary_of pr =
     \<lparr>sm_number = number pr, sm_title = title pr, sm_author = author pr,
      sm_created_at = created_at pr, sm_updated_at = updated_at pr\<rparr>"

record weights =
  w_codeQuality :: real
  w_testing :: real
  w_performance :: real
  w_security :: real
  w_documentation :: real

record thresholds =
  minimumScore :: real
  autoMergeScore :: real
  codeQualityMin :: real
  testingMin :: real
  performanceMin :: real
  securityMin :: real
  documentationMin :: real

record scoring_config =
  scoring_weights :: weights
  scoring_thresholds :: thresholds

text \<open>
  The \<open>CodeAnalyzer\<close> object held by the scorer: its four metrics are methods of
  another class, each of which returns a number or throws.
\<close>

record code_analyzer =
  ca_analyzeComplexity :: "pr_file list \<Rightarrow> exn + real"
  ca_checkCodingStandards :: "pr_file list \<Rightarrow> exn + real"
  ca_detectDuplication :: "pr_file list \<Rightarrow> exn + real"
  ca_calculateMaintainability :: "pr_file list \<Rightarrow> exn + real"

record scorer =
  config :: scoring_config
  codeAnalyzer :: code_analyzer

text \<open>
  What one evaluation of \<open>scorePR\<close> receives from outside: the value of each
  \<open>Math.random()\<close> call (one per placeholder metric) and the answer of the hosting
  platform to each \<open>getPRFiles\<close> request (one per call site, a pr_file list or a thrown
  error). Every call site runs at most once per evaluation.
\<close>

record world =
  rnd_coverage :: real
  rnd_status :: real
  rnd_edgeCases :: real
  rnd_benchmarks :: real
  rnd_vulnerabilities :: real
  rnd_practices :: real
  files_codeQuality :: "exn + pr_file list"
  files_countTestFiles :: "exn + pr_file list"
  files_optimizations :: "exn + pr_file list"
  files_inputValidation :: "exn + pr_file list"
  files_errorHandling :: "exn + pr_file list"
  files_documentation :: "exn + pr_file list"

record quality_metrics =
  complexity :: real
  maintainability :: real
  duplication :: real
  standards :: real

record testing_metrics =
  coverage :: real
  testFiles :: real
  testsPassing :: bool
  edgeCases :: real

record performance_metrics =
  loadTime :: real
  memoryUsage :: real
  benchmarks :: real
  optimizations :: real

record security_metrics =
  vulnerabilities :: real
  bestPractices :: real
  inputValidation :: real
  errorHandling :: real

record documentation_metrics =
  codeComments :: real
  readmeUpdates :: real
  apiDocs :: real
  completeness :: real

text \<open>One criterion of the report; \<open>metrics = None\<close> is the empty object of the default report.\<close>

record 'm criterion =
  score :: real
  metrics :: "'m option"
  details :: string

record scores =
  s_codeQuality :: "quality_metrics criterion"
  s_testing :: "testing_metrics criterion"
  s_performance :: "performance_metrics criterion"
  s_security :: "security_metrics criterion"
  s_documentation :: "documentation_metrics criterion"

record verdict =
  v_overall :: bool
  v_codeQuality :: bool
  v_testing :: bool
  v_performance :: bool
  v_security :: bool
  v_documentation :: bool
  v_autoMergeEligible :: bool

text \<open>The report of \<open>scorePR\<close> (its \<open>timestamp\<close>, the wall clock, is left out).\<close>

record report =
  r_pr :: pr_summary
  r_scores :: scores
  weightedScore :: real
  meetsThresholds :: verdict

definition clamp100 :: "real \<Rightarrow> real" where
  "clamp100 x = max 0 (min 100 x)"

subsection \<open>Helper analyses\<close>

definition analyzeTestCoverage :: "world \<Rightarrow> real" where
  "analyzeTestCoverage w = rnd_coverage w * 40 + 60"

definition isTestName :: "string \<Rightarrow> bool" where
  "isTestName n = (includes_str n ''test'' \<or> includes_str n ''spec'' \<or>
                   endsWith n ''.test.js'' \<or> endsWith n ''.spec.js'')"

definition countTestFiles :: "world \<Rightarrow> exn + real" where
  "countTestFiles w =
     (case files_countTestFiles w of
        Inl e \<Rightarrow> Inl e
      | Inr fs \<Rightarrow> Inr (real (length (filter (\<lambda>f. isTestName (filename f)) fs))))"

definition checkTestStatus :: "world \<Rightarrow> bool" where
  "checkTestStatus w = (rnd_status w > 0.1)"

definition analyzeEdgeCaseCoverage :: "world \<Rightarrow> real" where
  "analyzeEdgeCaseCoverage w = of_int \<lfloor>rnd_edgeCases w * 5\<rfloor>"

definition analyzePerformanceBenchmarks :: "world \<Rightarrow> real" where
  "analyzePerformanceBenchmarks w = rnd_benchmarks w * 30 + 70"

text \<open>
  The three keyword scans share one loop: for every file with a patch and every
  keyword contained in the lower-cased patch, the score grows by a fixed amount.
\<close>

fun keywordHits :: "string list \<Rightarrow> pr_file list \<Rightarrow> nat" where
  "keywordHits kws [] = 0"
| "keywordHits kws (f # fs) =
     (case patch_text f of
        None \<Rightarrow> 0
      | Some p \<Rightarrow> length (filter (\<lambda>k. includes_str (toLowerCase p) k) kws))
     + keywordHits kws fs"

definition detectOptimizations :: "world \<Rightarrow> exn + real" where
  "detectOptimizations w =
     (case files_optimizations w of
        Inl e \<Rightarrow> Inl e
      | Inr fs \<Rightarrow> Inr (min 100 (20 * real (keywordHits
          [''cache'', ''optimize'', ''performance'', ''efficient'', ''faster''] fs))))"

definition scanSecurityVulnerabilities :: "world \<Rightarrow> real" where
  "scanSecurityVulnerabilities w = of_int \<lfloor>rnd_vulnerabilities w * 3\<rfloor>"

definition analyzeSecurityPractices :: "world \<Rightarrow> real" where
  "analyzeSecurityPractices w = rnd_practices w * 30 + 70"

definition analyzeInputValidation :: "world \<Rightarrow> exn + real" where
  "analyzeInputValidation w =
     (case files_inputValidation w of
        Inl e \<Rightarrow> Inl e
      | Inr fs \<Rightarrow> Inr (min 100 (20 * real (keywordHits
          [''validate'', ''sanitize'', ''escape'', ''check'', ''verify''] fs))))"

definition analyzeErrorHandling :: "world \<Rightarrow> exn + real" where
  "analyzeErrorHandling w =
     (case files_errorHandling w of
        Inl e \<Rightarrow> Inl e
      | Inr fs \<Rightarrow> Inr (min 100 (15 * real (keywordHits
          [''try'', ''catch'', ''error'', ''exception'', ''throw''] fs))))"

definition isCommentLine :: "string \<Rightarrow> bool" where
  "isCommentLine l = (startsWith (trim l) ''//'' \<or> startsWith (trim l) ''/*'' \<or>
                      startsWith (trim l) ''*'' \<or> startsWith (trim l) ''#'')"

text \<open>The loop of \<open>analyzeCodeComments\<close>: the pair (totalLines, commentLines).\<close>

fun commentCounts :: "pr_file list \<Rightarrow> nat \<times> nat" where
  "commentCounts [] = (0, 0)"
| "commentCounts (f # fs) =
     (case patch_text f of
        None \<Rightarrow> commentCounts fs
      | Some p \<Rightarrow>
          (length (lines_of p) + fst (commentCounts fs),
           length (filter isCommentLine (lines_of p)) + snd (commentCounts fs)))"

definition analyzeCodeComments :: "pr_file list \<Rightarrow> real" where
  "analyzeCodeComments fs =
     (let totalLines = fst (commentCounts fs); commentLines = snd (commentCounts fs);
          commentScore = (if totalLines > 0
                          then (real commentLines / real totalLines) * 100 * 5 else 0)
      in min 100 commentScore)"

definition checkReadmeUpdates :: "pr_file list \<Rightarrow> real" where
  "checkReadmeUpdates fs =
     (if list_ex (\<lambda>f. includes_str (toLowerCase (filename f)) ''readme'' \<or>
                       includes_str (toLowerCase (filename f)) ''doc'') fs
      then 80 else 20)"

definition analyzeAPIDocumentation :: "pr_file list \<Rightarrow> real" where
  "analyzeAPIDocumentation fs =
     (if length (filter (\<lambda>f. includes_str (filename f) ''doc'' \<or> includes_str (filename f) ''api'' \<or>
                              endsWith (filename f) ''.md'') fs) > 0
      then 80 else 40)"

subsection \<open>The five sub-scores\<close>

text \<open>
  Each sub-score function returns its criterion record and the warnings it logged.
  A \<open>try\<close> block is a chain of case distinctions on the calls that can throw; the
  metrics assigned before the throwing call stay in the returned record.
\<close>

definition criterion_of :: "real \<Rightarrow> 'm \<Rightarrow> string \<Rightarrow> 'm criterion" where
  "criterion_of tot m d = \<lparr>score = clamp100 tot, metrics = Some m, details = d\<rparr>"

definition qualityTotal :: "quality_metrics \<Rightarrow> real" where
  "qualityTotal m =
     (100 - min (complexity m * 5) 50) * 0.25 +
     standards m * 0.30 +
     (100 - min (duplication m * 10) 50) * 0.20 +
     maintainability m * 0.25"

definition quality_details :: string where
  "quality_details =
     ''Code quality analysis including complexity, standards, duplication, and maintainability''"

definition quality_failed :: "quality_metrics \<Rightarrow> exn \<Rightarrow> quality_metrics criterion \<times> log_entry list" where
  "quality_failed m e =
     (criterion_of 50 m quality_details,
      [Warning (''Code quality analysis failed: '' @ message e)])"

text \<open>
  \<open>scoreCodeQuality\<close> requests the pr_file list before its \<open>try\<close> block: a failure of
  that request is thrown to the caller.
\<close>

definition scoreCodeQuality ::
  "scorer \<Rightarrow> world \<Rightarrow> exn + (quality_metrics criterion \<times> log_entry list)" where
  "scoreCodeQuality this w =
     (case files_codeQuality w of
        Inl e \<Rightarrow> Inl e
      | Inr fs \<Rightarrow>
          (let m0 = \<lparr>complexity = 0, maintainability = 0, duplication = 0, standards = 0\<rparr> in
           case ca_analyzeComplexity (codeAnalyzer this) fs of
             Inl e \<Rightarrow> Inr (quality_failed m0 e)
           | Inr c \<Rightarrow>
          (let m1 = m0\<lparr>complexity := c\<rparr> in
           case ca_checkCodingStandards (codeAnalyzer this) fs of
             Inl e \<Rightarrow> Inr (quality_failed m1 e)
           | Inr s \<Rightarrow>
          (let m2 = m1\<lparr>standards := s\<rparr> in
           case ca_detectDuplication (codeAnalyzer this) fs of
             Inl e \<Rightarrow> Inr (quality_failed m2 e)
           | Inr d \<Rightarrow>
          (let m3 = m2\<lparr>duplication := d\<rparr> in
           case ca_calculateMaintainability (codeAnalyzer this) fs of
             Inl e \<Rightarrow> Inr (quality_failed m3 e)
           | Inr mt \<Rightarrow>
          (let m4 = m3\<lparr>maintainability := mt\<rparr> in
           Inr (criterion_of (qualityTotal m4) m4 quality_details, [])))))))"

definition testingTotal :: "testing_metrics \<Rightarrow> real" where
  "testingTotal m =
     (let coverageScore = min (coverage m * 1.25) 100;
          testFileScore = min (testFiles m * 20) 30;
          passingScore = (if testsPassing m then 40 else 0);
          edgeCaseScore = min (edgeCases m * 10) 30
      in coverageScore * 0.4 + testFileScore * 0.2 + passingScore * 0.3 + edgeCaseScore * 0.1)"

definition testing_details :: string where
  "testing_details =
     ''Testing analysis including coverage, test quality, and edge case handling''"

definition scoreTesting :: "world \<Rightarrow> testing_metrics criterion \<times> log_entry list" where
  "scoreTesting w =
     (let m0 = \<lparr>coverage = 0, testFiles = 0, testsPassing = True, edgeCases = 0\<rparr>;
          m1 = m0\<lparr>coverage := analyzeTestCoverage w\<rparr> in
      case countTestFiles w of
        Inl e \<Rightarrow> (criterion_of 60 m1 testing_details,
                  [Warning (''Testing analysis failed: '' @ message e)])
      | Inr n \<Rightarrow>
          (let m2 = m1\<lparr>testFiles := n\<rparr>;
               m3 = m2\<lparr>testsPassing := checkTestStatus w\<rparr>;
               m4 = m3\<lparr>edgeCases := analyzeEdgeCaseCoverage w\<rparr>
           in (criterion_of (testingTotal m4) m4 testing_details, [])))"

definition performanceTotal :: "performance_metrics \<Rightarrow> real" where
  "performanceTotal m =
     loadTime m * 0.30 + memoryUsage m * 0.25 + benchmarks m * 0.25 + optimizations m * 0.20"

definition performance_details :: string where
  "performance_details =
     ''Performance analysis including load time, memory usage, and optimizations''"

definition scorePerformance :: "world \<Rightarrow> performance_metrics criterion \<times> log_entry list" where
  "scorePerformance w =
     (let m0 = \<lparr>loadTime = 0, memoryUsage = 0, benchmarks = 0, optimizations = 0\<rparr>;
          m1 = m0\<lparr>benchmarks := analyzePerformanceBenchmarks w\<rparr> in
      case detectOptimizations w of
        Inl e \<Rightarrow> (criterion_of 70 m1 performance_details,
                  [Warning (''Performance analysis failed: '' @ message e)])
      | Inr opt \<Rightarrow>
          (let m2 = m1\<lparr>optimizations := opt\<rparr>;
               m3 = m2\<lparr>loadTime := 85\<rparr>;
               m4 = m3\<lparr>memoryUsage := 75\<rparr>
           in (criterion_of (performanceTotal m4) m4 performance_details, [])))"

definition securityTotal :: "security_metrics \<Rightarrow> real" where
  "securityTotal m =
     (100 - vulnerabilities m * 25) * 0.40 + bestPractices m * 0.30 +
     inputValidation m * 0.20 + errorHandling m * 0.10"

definition security_details :: string where
  "security_details =
     ''Security analysis including vulnerability scanning and best practices''"

definition security_failed ::
  "security_metrics \<Rightarrow> exn \<Rightarrow> security_metrics criterion \<times> log_entry list" where
  "security_failed m e =
     (criterion_of 80 m security_details,
      [Warning (''Security analysis failed: '' @ message e)])"

definition scoreSecurity :: "world \<Rightarrow> security_metrics criterion \<times> log_entry list" where
  "scoreSecurity w =
     (let m0 = \<lparr>vulnerabilities = 0, bestPractices = 0, inputValidation = 0, errorHandling = 0\<rparr>;
          m1 = m0\<lparr>vulnerabilities := scanSecurityVulnerabilities w\<rparr>;
          m2 = m1\<lparr>bestPractices := analyzeSecurityPractices w\<rparr> in
      case analyzeInputValidation w of
        Inl e \<Rightarrow> security_failed m2 e
      | Inr iv \<Rightarrow>
          (let m3 = m2\<lparr>inputValidation := iv\<rparr> in
           case analyzeErrorHandling w of
             Inl e \<Rightarrow> security_failed m3 e
           | Inr eh \<Rightarrow>
               (let m4 = m3\<lparr>errorHandling := eh\<rparr>
                in (criterion_of (securityTotal m4) m4 security_details, []))))"

definition documentation_details :: string where
  "documentation_details =
     ''Documentation analysis including code comments, README updates, and API docs''"

definition scoreDocumentation ::
  "world \<Rightarrow> documentation_metrics criterion \<times> log_entry list" where
  "scoreDocumentation w =
     (let m0 = \<lparr>codeComments = 0, readmeUpdates = 0, apiDocs = 0, completeness = 0\<rparr> in
      case files_documentation w of
        Inl e \<Rightarrow> (criterion_of 60 m0 documentation_details,
                  [Warning (''Documentation analysis failed: '' @ message e)])
      | Inr fs \<Rightarrow>
          (let m1 = m0\<lparr>codeComments := analyzeCodeComments fs\<rparr>;
               m2 = m1\<lparr>readmeUpdates := checkReadmeUpdates fs\<rparr>;
               m3 = m2\<lparr>apiDocs := analyzeAPIDocumentation fs\<rparr>;
               m4 = m3\<lparr>completeness := (codeComments m3 + readmeUpdates m3 + apiDocs m3) / 3\<rparr>
           in (criterion_of (completeness m4) m4 documentation_details, [])))"

subsection \<open>Weighted total, thresholds and the report\<close>

text \<open>
  The weighted total is returned as computed, with no clamp: five products summed
  from left to right, each operation rounded to a double.
\<close>

definition calculateWeightedScore :: "scorer \<Rightarrow> scores \<Rightarrow> real" where
  "calculateWeightedScore this sc =
     (let ws = scoring_weights (config this) in
      js_add (js_add (js_add (js_add
        (js_mul (score (s_codeQuality sc)) (w_codeQuality ws))
        (js_mul (score (s_testing sc)) (w_testing ws)))
        (js_mul (score (s_performance sc)) (w_performance ws)))
        (js_mul (score (s_security sc)) (w_security ws)))
        (js_mul (score (s_documentation sc)) (w_documentation ws)))"

definition checkThresholds :: "scorer \<Rightarrow> scores \<Rightarrow> real \<Rightarrow> verdict" where
  "checkThresholds this sc tot =
     (let th = scoring_thresholds (config this) in
      \<lparr>v_overall = (tot \<ge> minimumScore th),
       v_codeQuality = (score (s_codeQuality sc) \<ge> codeQualityMin th),
       v_testing = (score (s_testing sc) \<ge> testingMin th),
       v_performance = (score (s_performance sc) \<ge> performanceMin th),
       v_security = (score (s_security sc) \<ge> securityMin th),
       v_documentation = (score (s_documentation sc) \<ge> documentationMin th),
       v_autoMergeEligible = (tot \<ge> autoMergeScore th)\<rparr>)"

definition default_criterion :: "'m option \<Rightarrow> 'm criterion" where
  "default_criterion m =
     \<lparr>score = 50, metrics = m, details = ''Default score due to analysis failure''\<rparr>"

definition getDefaultScore :: "pull \<Rightarrow> report" where
  "getDefaultScore pr =
     \<lparr>r_pr = summary_of pr,
      r_scores = \<lparr>s_codeQuality = default_criterion None, s_testing = default_criterion None,
                  s_performance = default_criterion None, s_security = default_criterion None,
                  s_documentation = default_criterion None\<rparr>,
      weightedScore = 50,
      meetsThresholds = \<lparr>v_overall = False, v_codeQuality = False, v_testing = False,
                         v_performance = False, v_security = False, v_documentation = False,
                         v_autoMergeEligible = False\<rparr>\<rparr>"

text \<open>
  \<open>scorePR\<close>: the five sub-scores in order, then the weighted total and the verdict. An error
  thrown by a sub-score function is caught here: the run is marked failed and the
  default report returned.
\<close>

definition scorePR :: "scorer \<Rightarrow> world \<Rightarrow> pull \<Rightarrow> report \<times> log_entry list" where
  "scorePR this w pr =
     (case scoreCodeQuality this w of
        Inl e \<Rightarrow> (getDefaultScore pr, [Failed (''PR scoring failed: '' @ message e)])
      | Inr (cq, l1) \<Rightarrow>
          (let (te, l2) = scoreTesting w;
               (pe, l3) = scorePerformance w;
               (se, l4) = scoreSecurity w;
               (dc, l5) = scoreDocumentation w;
               sc = \<lparr>s_codeQuality = cq, s_testing = te, s_performance = pe,
                     s_security = se, s_documentation = dc\<rparr>;
               tot = calculateWeightedScore this sc
           in (\<lparr>r_pr = summary_of pr, r_scores = sc, weightedScore = tot,
                 meetsThresholds = checkThresholds this sc tot\<rparr>,
               l1 @ l2 @ l3 @ l4 @ l5)))"

section \<open>FeatureDetector (scripts/feature-detector.js)\<close>

subsection \<open>Configuration, collaborators, data\<close>

record feature_config =
  branchPatterns :: "string list"
  labelKeywords :: "string list"
  titleSimilarityThreshold :: real
  fileOverlapThreshold :: real

text \<open>
  Two things the detector uses are not code of the repository and are parameters of
  the model: the string metric of the package \<open>similarity\<close>, and the regular-expression
  engine. \<open>regexCapture p b\<close> stands for
  \<open>b.match(new RegExp(p.replace('*', '(.+)')))\<close>: \<open>None\<close> when the branch name does
  not match, otherwise the text of the capture group.
\<close>

record detector =
  fd_config :: feature_config
  similarity :: "string \<Rightarrow> string \<Rightarrow> real"
  regexCapture :: "string \<Rightarrow> string \<Rightarrow> string option"

text \<open>
  The hosting platform during one run: the open pull requests, and per pull-request
  number its label names and its changed files. The requests are taken to succeed.
\<close>

record platform =
  open_prs :: "pull list"
  pr_labels :: "nat \<Rightarrow> string list"
  pr_files :: "nat \<Rightarrow> pr_file list"

text \<open>A feature group (its \<open>created_at\<close>, the wall clock, is left out).\<close>

record feature_group =
  feature :: string
  prs :: "pull list"

subsection \<open>The four relations\<close>

fun isBranchRelated_loop :: "detector \<Rightarrow> string list \<Rightarrow> string \<Rightarrow> string \<Rightarrow> bool" where
  "isBranchRelated_loop this [] branch1 branch2 = False"
| "isBranchRelated_loop this (p # ps) branch1 branch2 =
     (case (regexCapture this p branch1, regexCapture this p branch2) of
        (Some match1, Some match2) \<Rightarrow>
          (if similarity this (toLowerCase match1) (toLowerCase match2) > 0.6 then True
           else isBranchRelated_loop this ps branch1 branch2)
      | _ \<Rightarrow> isBranchRelated_loop this ps branch1 branch2)"

definition isBranchRelated :: "detector \<Rightarrow> string \<Rightarrow> string \<Rightarrow> bool" where
  "isBranchRelated this branch1 branch2 =
     isBranchRelated_loop this (branchPatterns (fd_config this)) branch1 branch2"

definition areLabelsRelated :: "detector \<Rightarrow> platform \<Rightarrow> pull \<Rightarrow> pull \<Rightarrow> bool" where
  "areLabelsRelated this pf pr1 pr2 =
     (let labels1 = map toLowerCase (pr_labels pf (number pr1));
          labels2 = map toLowerCase (pr_labels pf (number pr2))
      in list_ex (\<lambda>keyword.
           list_ex (\<lambda>label. includes_str label keyword) labels1 \<and>
           list_ex (\<lambda>label. includes_str label keyword) labels2)
         (labelKeywords (fd_config this)))"

definition areTitlesRelated :: "detector \<Rightarrow> string \<Rightarrow> string \<Rightarrow> bool" where
  "areTitlesRelated this title1 title2 =
     (similarity this (toLowerCase title1) (toLowerCase title2)
        > titleSimilarityThreshold (fd_config this))"

text \<open>
  \<open>overlapRatio\<close>: the two \<open>Set\<close>s of file names, the size of their intersection
  divided by the size of their union.
\<close>

definition overlapRatio :: "platform \<Rightarrow> pull \<Rightarrow> pull \<Rightarrow> jsnum" where
  "overlapRatio pf pr1 pr2 =
     (let fileSet1 = set (map filename (pr_files pf (number pr1)));
          fileSet2 = set (map filename (pr_files pf (number pr2)))
      in js_div (card (fileSet1 \<inter> fileSet2)) (card (fileSet1 \<union> fileSet2)))"

definition hasFileOverlap :: "detector \<Rightarrow> platform \<Rightarrow> pull \<Rightarrow> pull \<Rightarrow> bool" where
  "hasFileOverlap this pf pr1 pr2 =
     js_gt (overlapRatio pf pr1 pr2) (fileOverlapThreshold (fd_config this))"

definition isPRRelated :: "detector \<Rightarrow> platform \<Rightarrow> pull \<Rightarrow> pull \<Rightarrow> bool" where
  "isPRRelated this pf pr1 pr2 =
     (if isBranchRelated this (head_ref pr1) (head_ref pr2) then True
      else if areLabelsRelated this pf pr1 pr2 then True
      else if areTitlesRelated this (title pr1) (title pr2) then True
      else if hasFileOverlap this pf pr1 pr2 then True
      else False)"

subsection \<open>Related pull requests and grouping\<close>

definition detectRelatedPRs :: "detector \<Rightarrow> platform \<Rightarrow> pull \<Rightarrow> pull list" where
  "detectRelatedPRs this pf currentPR =
     filter (\<lambda>pr. number pr \<noteq> number currentPR \<and> isPRRelated this pf currentPR pr)
       (open_prs pf)"

definition replaceChar :: "char \<Rightarrow> char \<Rightarrow> string \<Rightarrow> string" where
  "replaceChar a b s = map (\<lambda>c. if c = a then b else c) s"

fun extractFeatureName_loop :: "detector \<Rightarrow> string list \<Rightarrow> pull \<Rightarrow> string" where
  "extractFeatureName_loop this [] pr = take 50 (title pr)"
| "extractFeatureName_loop this (p # ps) pr =
     (case regexCapture this p (head_ref pr) of
        Some m \<Rightarrow> replaceChar (CHR ''_'') (CHR '' '') (replaceChar (CHR ''-'') (CHR '' '') m)
      | None \<Rightarrow> extractFeatureName_loop this ps pr)"

definition extractFeatureName :: "detector \<Rightarrow> pull \<Rightarrow> string" where
  "extractFeatureName this pr = extractFeatureName_loop this (branchPatterns (fd_config this)) pr"

text \<open>
  The loop of \<open>groupPRsByFeature\<close> over the remaining pull requests, with the groups
  emitted so far and the set \<open>processed\<close> of pull-request numbers.
\<close>

fun groupPRsByFeature_loop ::
  "detector \<Rightarrow> platform \<Rightarrow> pull list \<Rightarrow> feature_group list \<Rightarrow> nat set
     \<Rightarrow> feature_group list" where
  "groupPRsByFeature_loop this pf [] groups processed = groups"
| "groupPRsByFeature_loop this pf (pr # rest) groups processed =
     (if number pr \<in> processed then groupPRsByFeature_loop this pf rest groups processed
      else
        (let relatedPRs = detectRelatedPRs this pf pr in
         if length relatedPRs > 0 then
           groupPRsByFeature_loop this pf rest
             (groups @ [\<lparr>feature = extractFeatureName this pr, prs = pr # relatedPRs\<rparr>])
             (insert (number pr) processed \<union> set (map number relatedPRs))
         else groupPRsByFeature_loop this pf rest groups processed))"

definition groupPRsByFeature :: "detector \<Rightarrow> platform \<Rightarrow> pull list \<Rightarrow> feature_group list" where
  "groupPRsByFeature this pf pulls = groupPRsByFeature_loop this pf pulls [] {}"

text \<open>How often a pull-request number occurs as a member of the emitted groups.\<close>

definition membership_count :: "feature_group list \<Rightarrow> nat \<Rightarrow> nat" where
  "membership_count groups n =
     length (filter (\<lambda>g. n \<in> set (map number (prs g))) groups)"

section \<open>CodeAnalyzer: duplication detection (scripts/code-analyzer.js)\<close>

definition isWordChar :: "char \<Rightarrow> bool" where
  "isWordChar c =
     (let n = (of_char c :: nat)
      in (48 \<le> n \<and> n \<le> 57) \<or> (65 \<le> n \<and> n \<le> 90) \<or> n = 95 \<or> (97 \<le> n \<and> n \<le> 122))"

definition isDigit :: "char \<Rightarrow> bool" where
  "isDigit c = (48 \<le> (of_char c :: nat) \<and> (of_char c :: nat) \<le> 57)"

definition isLowerLetter :: "char \<Rightarrow> bool" where
  "isLowerLetter c = (97 \<le> (of_char c :: nat) \<and> (of_char c :: nat) \<le> 122)"

text \<open>
  \<open>s.split(/\W+/)\<close>: the pieces between the maximal runs of non-word characters; a
  run at the start or at the end leaves an empty piece there.
\<close>

function splitNonWord :: "string \<Rightarrow> string list" where
  "splitNonWord [] = [[]]"
| "splitNonWord (c # s) =
     (if isWordChar c
      then (case splitNonWord s of [] \<Rightarrow> [[c]] | p # ps \<Rightarrow> (c # p) # ps)
      else [] # splitNonWord (dropWhile (\<lambda>d. \<not> isWordChar d) s))"
  by pat_completeness auto
termination
  by (relation "measure length") (auto simp: less_Suc_eq_le length_dropWhile_le)

definition joinWith :: "string \<Rightarrow> string list \<Rightarrow> string" where
  "joinWith sep xs = (case xs of [] \<Rightarrow> [] | y # ys \<Rightarrow> y @ concat (map (\<lambda>z. sep @ z) ys))"

definition isCodeFile :: "string \<Rightarrow> bool" where
  "isCodeFile name =
     list_ex (\<lambda>ext. endsWith name ext)
       [''.js'', ''.ts'', ''.jsx'', ''.tsx'', ''.py'', ''.java'', ''.cpp'', ''.c'', ''.cs'',
        ''.php'', ''.rb'', ''.go'', ''.rs'']"

text \<open>
  The loop of \<open>extractCodeBlocks\<close> over the added lines, with the block being
  collected: a line of more than 10 characters that does not start a comment extends
  the block, any other line closes it; a closed block of at least 3 lines is kept.
\<close>

fun extractCodeBlocks_loop :: "string list \<Rightarrow> string list \<Rightarrow> string list" where
  "extractCodeBlocks_loop [] currentBlock =
     (if length currentBlock \<ge> 3 then [joinWith [CHR 0x0A] currentBlock] else [])"
| "extractCodeBlocks_loop (line # rest) currentBlock =
     (if length line > 10 \<and> \<not> startsWith line ''//'' \<and> \<not> startsWith line ''/*''
      then extractCodeBlocks_loop rest (currentBlock @ [line])
      else (if length currentBlock \<ge> 3 then [joinWith [CHR 0x0A] currentBlock] else [])
           @ extractCodeBlocks_loop rest [])"

definition extractCodeBlocks :: "string \<Rightarrow> string list" where
  "extractCodeBlocks p =
     (let addedLines = map (\<lambda>line. trim (drop 1 line))
                           (filter (\<lambda>line. startsWith line ''+'') (lines_of p))
      in extractCodeBlocks_loop addedLines [])"

definition block_words :: "string \<Rightarrow> string list" where
  "block_words block = filter (\<lambda>w. length w > 2) (splitNonWord (toLowerCase block))"

text \<open>The word-overlap ratio of \<open>areSimilarBlocks\<close>, a division that can be \<open>0 / 0\<close>.\<close>

definition wordOverlap :: "string \<Rightarrow> string \<Rightarrow> jsnum" where
  "wordOverlap block1 block2 =
     (let words1 = block_words block1; words2 = block_words block2;
          intersection = filter (\<lambda>w. w \<in> set words2) words1
      in js_div (length intersection) (max (length words1) (length words2)))"

definition areSimilarBlocks :: "string \<Rightarrow> string \<Rightarrow> bool" where
  "areSimilarBlocks block1 block2 =
     (if length block1 < 50 \<or> length block2 < 50 then False
      else js_gt (wordOverlap block1 block2) 0.7)"

fun collectCodeBlocks :: "pr_file list \<Rightarrow> string list" where
  "collectCodeBlocks [] = []"
| "collectCodeBlocks (f # fs) =
     (case patch_text f of
        Some p \<Rightarrow> (if isCodeFile (filename f) then extractCodeBlocks p else [])
      | None \<Rightarrow> [])
     @ collectCodeBlocks fs"

text \<open>The nested loops over \<open>i < j\<close>: each block against the blocks after it.\<close>

fun countDuplications :: "string list \<Rightarrow> nat" where
  "countDuplications [] = 0"
| "countDuplications (b # bs) =
     length (filter (\<lambda>b'. areSimilarBlocks b b') bs) + countDuplications bs"

definition detectDuplication :: "pr_file list \<Rightarrow> nat" where
  "detectDuplication fs = min (countDuplications (collectCodeBlocks fs)) 10"

text \<open>The pairs \<open>(codeBlocks[i], codeBlocks[j])\<close> with \<open>i < j\<close>, in loop order.\<close>

fun block_pairs :: "'a list \<Rightarrow> ('a \<times> 'a) list" where
  "block_pairs [] = []"
| "block_pairs (b # bs) = map (\<lambda>b'. (b, b')) bs @ block_pairs bs"

section \<open>SnippetExtractor (scripts/snippet-extractor.js)\<close>

subsection \<open>Data\<close>

record change =
  code :: string
  lineCount :: nat

datatype snippet_type = Improvement | NewFile | Function

datatype complexity_level = Low | Medium | High

record quality_result =
  q_score :: real
  q_reasoning :: string

record snippet_pr =
  sp_number :: nat
  sp_title :: string
  sp_author :: string

text \<open>
  A snippet. \<open>sn_snippet\<close> is the code kept: the losing change object for an
  improvement, a text for a new file or a function. \<open>winningAlternative\<close> is present
  for improvements only.
\<close>

datatype snippet_body = ChangeBody change | TextBody string

record snippet =
  sn_type :: snippet_type
  sn_filename :: string
  sn_snippet :: snippet_body
  winningAlternative :: "change option"
  quality :: quality_result
  sn_pr :: snippet_pr
  reasoning :: string
  integrationComplexity :: complexity_level

record comparison =
  winningSnippet :: change
  losingSnippet :: change
  cmp_similarity :: real

subsection \<open>Changes of a patch\<close>

definition make_change :: "string list \<Rightarrow> change" where
  "make_change currentChange =
     \<lparr>code = joinWith [CHR 0x0A] currentChange, lineCount = length currentChange\<rparr>"

fun extractCodeChanges_loop :: "string list \<Rightarrow> string list \<Rightarrow> change list" where
  "extractCodeChanges_loop [] currentChange =
     (if length currentChange > 0 then [make_change currentChange] else [])"
| "extractCodeChanges_loop (line # rest) currentChange =
     (if startsWith line ''+'' \<and> \<not> startsWith line ''+++''
      then extractCodeChanges_loop rest (currentChange @ [drop 1 line])
      else (if length currentChange > 0
            then make_change currentChange # extractCodeChanges_loop rest []
            else extractCodeChanges_loop rest []))"

definition extractCodeChanges :: "string option \<Rightarrow> change list" where
  "extractCodeChanges p =
     (case p of
        None \<Rightarrow> []
      | Some txt \<Rightarrow>
          (if txt = [] then []
           else filter (\<lambda>c. lineCount c > 2) (extractCodeChanges_loop (lines_of txt) [])))"

subsection \<open>Similarity of two changes\<close>

text \<open>\<open>replace(/\s+/g, ' ')\<close>: every maximal run of white space becomes one blank.\<close>

function collapseSpaces :: "string \<Rightarrow> string" where
  "collapseSpaces [] = []"
| "collapseSpaces (c # s) =
     (if isSpace c then CHR '' '' # collapseSpaces (dropWhile isSpace s)
      else c # collapseSpaces s)"
  by pat_completeness auto
termination
  by (relation "measure length") (auto simp: less_Suc_eq_le length_dropWhile_le)

definition normalize :: "string \<Rightarrow> string" where
  "normalize c =
     trim (filter (\<lambda>ch. ch \<notin> set ''{}();,'') (collapseSpaces (toLowerCase c)))"

text \<open>
  The extractor holds the same package \<open>similarity\<close> as the detector; it is a
  parameter \<open>sim\<close> of the functions that use it.
\<close>

definition calculateCodeSimilarity ::
  "(string \<Rightarrow> string \<Rightarrow> real) \<Rightarrow> string \<Rightarrow> string \<Rightarrow> real" where
  "calculateCodeSimilarity sim code1 code2 = sim (normalize code1) (normalize code2)"

definition findSimilarChangeRegions ::
  "(string \<Rightarrow> string \<Rightarrow> real) \<Rightarrow> change list \<Rightarrow> change list \<Rightarrow> comparison list" where
  "findSimilarChangeRegions sim winningChanges losingChanges =
     concat (map (\<lambda>losingChange.
       concat (map (\<lambda>winningChange.
         (let similarity_score = calculateCodeSimilarity sim (code winningChange) (code losingChange)
          in if similarity_score > 0.3 \<and> similarity_score < 0.8
             then [\<lparr>winningSnippet = winningChange, losingSnippet = losingChange,
                    cmp_similarity = similarity_score\<rparr>]
             else []))
         winningChanges))
       losingChanges)"

subsection \<open>The quality heuristic\<close>

definition hasErrorHandling :: "string \<Rightarrow> bool" where
  "hasErrorHandling c =
     list_ex (\<lambda>keyword. includes_str (toLowerCase c) keyword)
       [''try'', ''catch'', ''throw'', ''error'', ''exception'']"

definition hasInputValidation :: "string \<Rightarrow> bool" where
  "hasInputValidation c =
     list_ex (\<lambda>keyword. includes_str (toLowerCase c) keyword)
       [''validate'', ''check'', ''verify'', ''assert'', ''typeof'', ''instanceof'']"

text \<open>The maximal runs of word characters of a text.\<close>

definition wordRuns :: "string \<Rightarrow> string list" where
  "wordRuns c = filter (\<lambda>r. r \<noteq> []) (splitNonWord c)"

text \<open>
  The matches of \<open>/\b[a-zA-Z_][a-zA-Z0-9_]*\b/g\<close>: a match starts at a word boundary
  and extends to the next one, so the matches are the maximal runs of word characters
  that do not start with a digit.
\<close>

definition identifiers :: "string \<Rightarrow> string list" where
  "identifiers c = filter (\<lambda>r. \<not> isDigit (hd r)) (wordRuns c)"

definition hasGoodNaming :: "string \<Rightarrow> bool" where
  "hasGoodNaming c =
     (let words = identifiers c;
          descriptiveNames =
            filter (\<lambda>word. length word > 3 \<and> \<not> (length word = 1 \<and> isLowerLetter (hd word))) words
      in real (length descriptiveNames) > real (length words) * 0.7)"

definition hasComments :: "string \<Rightarrow> bool" where
  "hasComments c = (includes_str c ''//'' \<or> includes_str c ''/*'' \<or> includes_str c ''#'')"

definition isWellStructured :: "string \<Rightarrow> bool" where
  "isWellStructured c =
     (let ls = lines_of c;
          nonEmptyLines = filter (\<lambda>line. length (trim line) > 0) ls;
          indentedLines = filter (\<lambda>line. case line of [] \<Rightarrow> False | ch # _ \<Rightarrow> isSpace ch) ls
      in real (length indentedLines) > real (length nonEmptyLines) * 0.3)"

definition hasTestCoverage :: "string \<Rightarrow> bool" where
  "hasTestCoverage c =
     list_ex (\<lambda>keyword. includes_str (toLowerCase c) keyword)
       [''test'', ''spec'', ''describe'', ''it'', ''expect'', ''assert'']"

definition hasPerformanceOptimizations :: "string \<Rightarrow> bool" where
  "hasPerformanceOptimizations c =
     list_ex (\<lambda>keyword. includes_str (toLowerCase c) keyword)
       [''cache'', ''memo'', ''optimize'', ''efficient'', ''performance'']"

text \<open>The suffixes of a text, one per position at which a regular expression can match.\<close>

fun suffixes_of :: "string \<Rightarrow> string list" where
  "suffixes_of [] = [[]]"
| "suffixes_of (c # s) = (c # s) # suffixes_of s"

text \<open>\<open>/if\s*\(/\<close> matches at the start of the text.\<close>

definition ifParenAt :: "string \<Rightarrow> bool" where
  "ifParenAt s =
     (startsWith s ''if'' \<and>
      (case dropWhile isSpace (drop 2 s) of [] \<Rightarrow> False | ch # _ \<Rightarrow> ch = CHR ''(''))"

text \<open>\<open>/(for|if|in)\s+[a-z]\b/\<close> matches at the start of the text.\<close>

definition loopIdiomAt :: "string \<Rightarrow> bool" where
  "loopIdiomAt s =
     list_ex (\<lambda>kw.
        startsWith s kw \<and>
        (let r = drop (length kw) s; r' = dropWhile isSpace r
         in length r' < length r \<and>
            (case r' of
               [] \<Rightarrow> False
             | ch # t \<Rightarrow> isLowerLetter ch \<and> (case t of [] \<Rightarrow> True | d # _ \<Rightarrow> \<not> isWordChar d))))
       [''for'', ''if'', ''in'']"

definition hasCodeSmells :: "string \<Rightarrow> bool" where
  "hasCodeSmells c =
     (let smells =
        [includes_str c ''TODO'',
         includes_str c ''FIXME'',
         length (filter ifParenAt (suffixes_of c)) > 5,
         length c > 1000,
         list_ex (\<lambda>r. length r = 1 \<and> isLowerLetter (hd r)) (wordRuns c) \<and>
           \<not> list_ex loopIdiomAt (suffixes_of c)]
      in length (filter (\<lambda>b. b) smells) > 1)"

text \<open>
  \<open>evaluateSnippetQuality\<close> on the code text of a snippet: the signals in the order of
  the source, each with its points and its reason.
\<close>

definition quality_signals :: "string \<Rightarrow> (bool \<times> real \<times> string) list" where
  "quality_signals c =
     [(hasErrorHandling c, 15, ''Includes error handling''),
      (hasInputValidation c, 10, ''Includes input validation''),
      (hasGoodNaming c, 10, ''Uses descriptive naming''),
      (hasComments c, 8, ''Well documented with comments''),
      (isWellStructured c, 12, ''Well structured and organized''),
      (hasTestCoverage c, 15, ''Includes or supports testing''),
      (hasPerformanceOptimizations c, 10, ''Includes performance optimizations''),
      (hasCodeSmells c, - 15, ''Contains potential code smells'')]"

definition evaluateSnippetQuality :: "string \<Rightarrow> quality_result" where
  "evaluateSnippetQuality c =
     (let triggered = filter (\<lambda>(b, pts, why). b) (quality_signals c);
          sc = 50 + sum_list (map (\<lambda>(b, pts, why). pts) triggered)
      in \<lparr>q_score = max 0 (min 100 sc),
          q_reasoning = joinWith '', '' (map (\<lambda>(b, pts, why). why) triggered)\<rparr>)"

subsection \<open>Improvements from a file changed on both sides\<close>

definition assessIntegrationComplexity :: "comparison \<Rightarrow> complexity_level" where
  "assessIntegrationComplexity cmp =
     (let winningLines = int (lineCount (winningSnippet cmp));
          losingLines = int (lineCount (losingSnippet cmp));
          sizeDiff = \<bar>winningLines - losingLines\<bar>
      in if sizeDiff < 5 then Low else if sizeDiff < 15 then Medium else High)"

definition improvement_of :: "pr_file \<Rightarrow> snippet_pr \<Rightarrow> comparison \<Rightarrow> snippet" where
  "improvement_of losingFile losingPR cmp =
     (let q = evaluateSnippetQuality (code (losingSnippet cmp))
      in \<lparr>sn_type = Improvement,
          sn_filename = filename losingFile,
          sn_snippet = ChangeBody (losingSnippet cmp),
          winningAlternative = Some (winningSnippet cmp),
          quality = q,
          sn_pr = losingPR,
          reasoning = q_reasoning q,
          integrationComplexity = assessIntegrationComplexity cmp\<rparr>)"

text \<open>
  \<open>compareFileImplementations\<close>. The code text of a change has more than two lines,
  so it is never the empty string and \<open>snippet.code || snippet\<close> is the code text;
  nothing in the \<open>try\<close> block throws.
\<close>

definition compareFileImplementations ::
  "(string \<Rightarrow> string \<Rightarrow> real) \<Rightarrow> pr_file \<Rightarrow> pr_file \<Rightarrow> snippet_pr \<Rightarrow> snippet list" where
  "compareFileImplementations sim winningFile losingFile losingPR =
     (let winningChanges = extractCodeChanges (patch winningFile);
          losingChanges = extractCodeChanges (patch losingFile);
          comparisons = findSimilarChangeRegions sim winningChanges losingChanges
      in concat (map (\<lambda>cmp.
           if q_score (evaluateSnippetQuality (code (losingSnippet cmp))) > 75
           then [improvement_of losingFile losingPR cmp] else [])
         comparisons))"

subsection \<open>Ranking\<close>

fun complexityOrder :: "complexity_level \<Rightarrow> int" where
  "complexityOrder Low = 1"
| "complexityOrder Medium = 2"
| "complexityOrder High = 3"

text \<open>The comparator passed to \<open>sort\<close>: negative when \<open>a\<close> goes before \<open>b\<close>.\<close>

definition compareSnippets :: "snippet \<Rightarrow> snippet \<Rightarrow> real" where
  "compareSnippets a b =
     (if q_score (quality a) \<noteq> q_score (quality b)
      then q_score (quality b) - q_score (quality a)
      else of_int (complexityOrder (integrationComplexity a)
                   - complexityOrder (integrationComplexity b)))"

text \<open>
  \<open>Array.prototype.sort\<close> with a comparator is a stable sort. It is modelled as the
  stable insertion sort: an element is placed before the first element that it does
  not come after.
\<close>

fun insertBy :: "('a \<Rightarrow> 'a \<Rightarrow> real) \<Rightarrow> 'a \<Rightarrow> 'a list \<Rightarrow> 'a list" where
  "insertBy cmp x [] = [x]"
| "insertBy cmp x (y # ys) = (if cmp x y \<le> 0 then x # y # ys else y # insertBy cmp x ys)"

definition sortBy :: "('a \<Rightarrow> 'a \<Rightarrow> real) \<Rightarrow> 'a list \<Rightarrow> 'a list" where
  "sortBy cmp xs = foldr (insertBy cmp) xs []"

definition rankSnippets :: "snippet list \<Rightarrow> snippet list" where
  "rankSnippets snippets = sortBy compareSnippets snippets"

text \<open>
  \<open>extractSuperiorSnippets\<close> on the candidate lists that \<open>compareAndExtractSnippets\<close>
  returned for the losing pull requests, in order: all candidates are ranked and the
  first ten returned.
\<close>

definition extractSuperiorSnippets :: "snippet list list \<Rightarrow> snippet list" where
  "extractSuperiorSnippets prSnippets = take 10 (rankSnippets (concat prSnippets))"

text \<open>The order of the ranking: \<open>a\<close> may stand before \<open>b\<close>.\<close>

definition ranks_before :: "snippet \<Rightarrow> snippet \<Rightarrow> bool" where
  "ranks_before a b =
     (q_score (quality a) > q_score (quality b) \<or>
      (q_score (quality a) = q_score (quality b) \<and>
       complexityOrder (integrationComplexity a) \<le> complexityOrder (integrationComplexity b)))"

section \<open>Instances of the collaborators and example inputs\<close>

text \<open>
  An instance of the string metric: the Levenshtein ratio of the lower-cased
  strings, which is what the package \<open>similarity\<close> computes.
\<close>

fun levenshtein :: "string \<Rightarrow> string \<Rightarrow> nat" where
  "levenshtein [] t = length t"
| "levenshtein (a # s) [] = Suc (length s)"
| "levenshtein (a # s) (b # t) =
     (if a = b then levenshtein s t
      else Suc (min (levenshtein s t) (min (levenshtein s (b # t)) (levenshtein (a # s) t))))"

definition levenshtein_ratio :: "string \<Rightarrow> string \<Rightarrow> real" where
  "levenshtein_ratio a b =
     (let l = toLowerCase a; r = toLowerCase b; longest = max (length l) (length r)
      in if l = r then 1
         else (real longest - real (levenshtein l r)) / real longest)"

text \<open>
  An instance of the regular-expression engine for patterns that are a literal text
  followed by \<open>*\<close>, such as \<open>feature/*\<close>: the leftmost occurrence of the literal that
  is followed by at least one character of the same line; the capture runs to the
  end of that line.
\<close>

definition wildcardAt :: "string \<Rightarrow> string \<Rightarrow> string option" where
  "wildcardAt lit s =
     (if startsWith s lit
      then (let cap = takeWhile (\<lambda>c. c \<noteq> CHR 0x0A \<and> c \<noteq> CHR 0x0D) (drop (length lit) s)
            in if cap = [] then None else Some cap)
      else None)"

fun firstMatch :: "(string \<Rightarrow> string option) \<Rightarrow> string \<Rightarrow> string option" where
  "firstMatch f [] = f []"
| "firstMatch f (c # s) = (case f (c # s) of Some r \<Rightarrow> Some r | None \<Rightarrow> firstMatch f s)"

definition wildcardCapture :: "string \<Rightarrow> string \<Rightarrow> string option" where
  "wildcardCapture p b =
     (if endsWith p ''*'' then firstMatch (wildcardAt (butlast p)) b else None)"

text \<open>The documented default configuration of feature detection, with no label keywords.\<close>

definition ex_detector :: detector where
  "ex_detector =
     \<lparr>fd_config = \<lparr>branchPatterns = [''feature/*'', ''feat/*'', ''enhancement/*'', ''improvement/*''],
                   labelKeywords = [],
                   titleSimilarityThreshold = 0.7,
                   fileOverlapThreshold = 0.3\<rparr>,
      similarity = levenshtein_ratio,
      regexCapture = wildcardCapture\<rparr>"

definition ex_pull :: "nat \<Rightarrow> string \<Rightarrow> string \<Rightarrow> pull" where
  "ex_pull n t b =
     \<lparr>number = n, title = t, head_ref = b, author = ''dev'',
      created_at = ''2024-01-01T00:00:00Z'', updated_at = ''2024-01-02T00:00:00Z''\<rparr>"

definition ex_file :: "string \<Rightarrow> pr_file" where
  "ex_file name = \<lparr>filename = name, status = ''modified'', patch = None\<rparr>"

text \<open>
  Three open pull requests: 1 and 2 share \<open>b.js\<close>, 2 and 3 share \<open>c.js\<close>, 1 and 3
  share nothing; their titles and branch names are unlike each other.
\<close>

definition ex_pr1 :: pull where "ex_pr1 = ex_pull 1 ''Login'' ''login''"
definition ex_pr2 :: pull where "ex_pr2 = ex_pull 2 ''Cache'' ''cache''"
definition ex_pr3 :: pull where "ex_pr3 = ex_pull 3 ''Fonts'' ''fonts''"

definition ex_platform :: platform where
  "ex_platform =
     \<lparr>open_prs = [ex_pr1, ex_pr2, ex_pr3],
      pr_labels = (\<lambda>n. []),
      pr_files = (\<lambda>n. if n = 1 then [ex_file ''a.js'', ex_file ''b.js'']
                        else if n = 2 then [ex_file ''b.js'', ex_file ''c.js'']
                        else if n = 3 then [ex_file ''c.js'', ex_file ''d.js'']
                        else [])\<rparr>"

text \<open>Two open pull requests without changed files.\<close>

definition ex_platform_empty :: platform where
  "ex_platform_empty =
     \<lparr>open_prs = [ex_pr1, ex_pr2], pr_labels = (\<lambda>n. []), pr_files = (\<lambda>n. [])\<rparr>"

text \<open>The documented default configuration of scoring.\<close>

definition ex_config :: scoring_config where
  "ex_config =
     \<lparr>scoring_weights = \<lparr>w_codeQuality = 0.30, w_testing = 0.25, w_performance = 0.20,
                         w_security = 0.15, w_documentation = 0.10\<rparr>,
      scoring_thresholds = \<lparr>minimumScore = 70, autoMergeScore = 90, codeQualityMin = 60,
                            testingMin = 70, performanceMin = 50, securityMin = 80,
                            documentationMin = 40\<rparr>\<rparr>"

definition ex_analyzer :: code_analyzer where
  "ex_analyzer =
     \<lparr>ca_analyzeComplexity = (\<lambda>fs. Inr 2),
      ca_checkCodingStandards = (\<lambda>fs. Inr 90),
      ca_detectDuplication = (\<lambda>fs. Inr (real (detectDuplication fs))),
      ca_calculateMaintainability = (\<lambda>fs. Inr 85)\<rparr>"

definition ex_scorer :: scorer where
  "ex_scorer = \<lparr>config = ex_config, codeAnalyzer = ex_analyzer\<rparr>"





definition ex_files :: "pr_file list" where
  "ex_files =
     [\<lparr>filename = ''auth.js'', status = ''added'',
       patch = Some ''+// check the token\<newline>+try { verify(t) } catch (e) { }''\<rparr>,
      \<lparr>filename = ''auth.test.js'', status = ''added'',
       patch = Some ''+test(1)''\<rparr>]"

text \<open>
  A run in which every request succeeds, and the same run with the request of
  \<open>countTestFiles\<close> failing; a third run differs from the first in one random draw.
\<close>

definition ex_world :: world where
  "ex_world =
     \<lparr>rnd_coverage = 0.5, rnd_status = 0.5, rnd_edgeCases = 0.5, rnd_benchmarks = 0.5,
      rnd_vulnerabilities = 0.5, rnd_practices = 0.5,
      files_codeQuality = Inr ex_files, files_countTestFiles = Inr ex_files,
      files_optimizations = Inr ex_files, files_inputValidation = Inr ex_files,
      files_errorHandling = Inr ex_files, files_documentation = Inr ex_files\<rparr>"

definition ex_world_testing_down :: world where
  "ex_world_testing_down =
     ex_world\<lparr>files_countTestFiles := Inl (Error ''Service Unavailable'')\<rparr>"

definition ex_world_redrawn :: world where
  "ex_world_redrawn = ex_world\<lparr>rnd_coverage := 0\<rparr>"

text \<open>
  The same file changed by the winner and by a loser, each adding one block of three
  lines.
\<close>

definition ex_winningFile :: pr_file where
  "ex_winningFile =
     \<lparr>filename = ''auth.js'', status = ''modified'',
      patch = Some ''+a()\<newline>+b()\<newline>+c()''\<rparr>"

definition ex_losingFile :: pr_file where
  "ex_losingFile =
     \<lparr>filename = ''auth.js'', status = ''modified'',
      patch = Some ''+try {\<newline>+it()\<newline>+c() }''\<rparr>"

definition ex_losingPR :: snippet_pr where
  "ex_losingPR = \<lparr>sp_number = 2, sp_title = ''Cache'', sp_author = ''dev''\<rparr>"

definition ex_winningChange :: change where
  "ex_winningChange = \<lparr>code = ''a()\<newline>b()\<newline>c()'', lineCount = 3\<rparr>"

definition ex_losingChange :: change where
  "ex_losingChange = \<lparr>code = ''try {\<newline>it()\<newline>c() }'', lineCount = 3\<rparr>"

definition ex_snippet :: "real \<Rightarrow> complexity_level \<Rightarrow> snippet" where
  "ex_snippet q c =
     \<lparr>sn_type = Function, sn_filename = ''auth.js'', sn_snippet = TextBody ''f()'',
      winningAlternative = None,
      quality = \<lparr>q_score = q, q_reasoning = []\<rparr>,
      sn_pr = ex_losingPR, reasoning = [], integrationComplexity = c\<rparr>"

text \<open>A patch with the same three short lines added twice.\<close>

definition ex_repeated :: "pr_file list" where
  "ex_repeated =
     [\<lparr>filename = ''a.js'', status = ''modified'',
       patch = Some (''+let aaa = 1\<newline>+let bbb = 2\<newline>+let ccc = 3\<newline>+\<newline>'' @
                     ''+let aaa = 1\<newline>+let bbb = 2\<newline>+let ccc = 3'')\<rparr>]"

definition ex_block :: string where
  "ex_block = ''let aaa = 1\<newline>let bbb = 2\<newline>let ccc = 3''"

section \<open>Properties of the scorer\<close>

subsection \<open>Rounding\<close>











subsection \<open>The weighted total\<close>





subsection \<open>The testing sub-score\<close>

lemma clamp100_le: "x \<le> b \<Longrightarrow> 0 \<le> b \<Longrightarrow> clamp100 x \<le> b"
  by (simp add: clamp100_def)

lemma testingTotal_le: "testingTotal m \<le> 61"
proof -
  have "min (coverage m * 1.25) 100 * 0.4 \<le> 40" by (simp add: min_def)
  moreover have "min (testFiles m * 20) 30 * 0.2 \<le> 6" by (simp add: min_def)
  moreover have "(if testsPassing m then 40 else 0) * 0.3 \<le> (12::real)" by simp
  moreover have "min (edgeCases m * 10) 30 * 0.1 \<le> 3" by (simp add: min_def)
  ultimately show ?thesis unfolding testingTotal_def Let_def by linarith
qed

lemma scoreTesting_le: "score (fst (scoreTesting w)) \<le> 61"
  by (auto simp: scoreTesting_def criterion_of_def Let_def split: sum.splits
      intro!: clamp100_le testingTotal_le)

text \<open>
  Claim C8: whatever the coverage, the number of test files, the passing status and
  the edge-case count are, the blended testing total of the success path is at most
  61 (the components are capped at 100, 30, 40 and 30 and weighted 0.4, 0.2, 0.3 and
  0.1), so the testing sub-score of a report is at most 61 and a testing minimum
  above 61, such as the documented 70, is never met.
\<close>

theorem C8_testing_score_at_most_61:
  "testingTotal m \<le> 61
   \<and> score (fst (scoreTesting w)) \<le> 61
   \<and> (61 < testingMin (scoring_thresholds (config this))
        \<longrightarrow> \<not> v_testing (meetsThresholds (fst (scorePR this w pr))))"
proof -
  have "\<not> v_testing (meetsThresholds (fst (scorePR this w pr)))"
    if "61 < testingMin (scoring_thresholds (config this))"
    using that scoreTesting_le[of w]
    by (auto simp: scorePR_def getDefaultScore_def checkThresholds_def Let_def
        split: sum.splits prod.splits)
  then show ?thesis
    using testingTotal_le scoreTesting_le by blast
qed

theorem C8_testing_score_at_most_61_witness:
  "61 < testingMin (scoring_thresholds (config ex_scorer))
   \<and> testingTotal \<lparr>coverage = 100, testFiles = 5, testsPassing = True, edgeCases = 4\<rparr> \<le> 61
   \<and> score (fst (scoreTesting ex_world)) \<le> 61
   \<and> \<not> v_testing (meetsThresholds (fst (scorePR ex_scorer ex_world ex_pr1)))"
proof -
  have h: "61 < testingMin (scoring_thresholds (config ex_scorer))"
    by (simp add: ex_scorer_def ex_config_def)
  show ?thesis
    using h C8_testing_score_at_most_61
      [of "\<lparr>coverage = 100, testFiles = 5, testsPassing = True, edgeCases = 4\<rparr>"
          ex_world ex_scorer ex_pr1]
    by blast
qed

subsection \<open>Failure of a sub-computation\<close>

lemma scoreTesting_fallback:
  "countTestFiles w = Inl e \<Longrightarrow>
   score (fst (scoreTesting w)) = 60 \<and>
   snd (scoreTesting w) = [Warning (''Testing analysis failed: '' @ message e)]"
  by (simp add: scoreTesting_def criterion_of_def clamp100_def Let_def)

lemma scorePerformance_fallback:
  "detectOptimizations w = Inl e \<Longrightarrow>
   score (fst (scorePerformance w)) = 70 \<and>
   snd (scorePerformance w) = [Warning (''Performance analysis failed: '' @ message e)]"
  by (simp add: scorePerformance_def criterion_of_def clamp100_def Let_def)

lemma scoreSecurity_fallback_validation:
  "analyzeInputValidation w = Inl e \<Longrightarrow>
   score (fst (scoreSecurity w)) = 80 \<and>
   snd (scoreSecurity w) = [Warning (''Security analysis failed: '' @ message e)]"
  by (simp add: scoreSecurity_def security_failed_def criterion_of_def clamp100_def Let_def)

lemma scoreSecurity_fallback_errors:
  "\<not> isl (analyzeInputValidation w) \<Longrightarrow> analyzeErrorHandling w = Inl e \<Longrightarrow>
   score (fst (scoreSecurity w)) = 80 \<and>
   snd (scoreSecurity w) = [Warning (''Security analysis failed: '' @ message e)]"
  by (auto simp: scoreSecurity_def security_failed_def criterion_of_def clamp100_def Let_def
      split: sum.splits)

lemma scoreDocumentation_fallback:
  "files_documentation w = Inl e \<Longrightarrow>
   score (fst (scoreDocumentation w)) = 60 \<and>
   snd (scoreDocumentation w) = [Warning (''Documentation analysis failed: '' @ message e)]"
  by (simp add: scoreDocumentation_def criterion_of_def clamp100_def Let_def)

lemma scoreCodeQuality_returns:
  "files_codeQuality w = Inr fs \<Longrightarrow> \<exists>cq l. scoreCodeQuality this w = Inr (cq, l)"
  by (auto simp: scoreCodeQuality_def Let_def split: sum.splits)

lemma scoreCodeQuality_fallback_exact:
  assumes "files_codeQuality w = Inr fs"
  shows "ca_analyzeComplexity (codeAnalyzer this) fs = Inl e \<Longrightarrow>
           score (fst (projr (scoreCodeQuality this w))) = 50 \<and>
           snd (projr (scoreCodeQuality this w))
             = [Warning (''Code quality analysis failed: '' @ message e)]"
    and "\<not> isl (ca_analyzeComplexity (codeAnalyzer this) fs) \<Longrightarrow>
         ca_checkCodingStandards (codeAnalyzer this) fs = Inl e \<Longrightarrow>
           score (fst (projr (scoreCodeQuality this w))) = 50 \<and>
           snd (projr (scoreCodeQuality this w))
             = [Warning (''Code quality analysis failed: '' @ message e)]"
    and "\<not> isl (ca_analyzeComplexity (codeAnalyzer this) fs) \<Longrightarrow>
         \<not> isl (ca_checkCodingStandards (codeAnalyzer this) fs) \<Longrightarrow>
         ca_detectDuplication (codeAnalyzer this) fs = Inl e \<Longrightarrow>
           score (fst (projr (scoreCodeQuality this w))) = 50 \<and>
           snd (projr (scoreCodeQuality this w))
             = [Warning (''Code quality analysis failed: '' @ message e)]"
    and "\<not> isl (ca_analyzeComplexity (codeAnalyzer this) fs) \<Longrightarrow>
         \<not> isl (ca_checkCodingStandards (codeAnalyzer this) fs) \<Longrightarrow>
         \<not> isl (ca_detectDuplication (codeAnalyzer this) fs) \<Longrightarrow>
         ca_calculateMaintainability (codeAnalyzer this) fs = Inl e \<Longrightarrow>
           score (fst (projr (scoreCodeQuality this w))) = 50 \<and>
           snd (projr (scoreCodeQuality this w))
             = [Warning (''Code quality analysis failed: '' @ message e)]"
  using assms
  by (auto simp: scoreCodeQuality_def quality_failed_def criterion_of_def clamp100_def Let_def
      split: sum.splits)

text \<open>
  The request for the file list in \<open>scoreCodeQuality\<close> stands before the \<open>try\<close>
  block: when it fails, the whole report is replaced by the default report.
\<close>

lemma scorePR_request_failure:
  "files_codeQuality w = Inl e \<Longrightarrow>
   scorePR this w pr = (getDefaultScore pr, [Failed (''PR scoring failed: '' @ message e)])"
  by (simp add: scorePR_def scoreCodeQuality_def)

lemma scorePR_scores:
  assumes "scoreCodeQuality this w = Inr (cq, l)"
  shows "r_scores (fst (scorePR this w pr)) =
           \<lparr>s_codeQuality = cq, s_testing = fst (scoreTesting w),
            s_performance = fst (scorePerformance w), s_security = fst (scoreSecurity w),
            s_documentation = fst (scoreDocumentation w)\<rparr>"
    and "snd (scorePR this w pr) =
           l @ snd (scoreTesting w) @ snd (scorePerformance w) @ snd (scoreSecurity w)
             @ snd (scoreDocumentation w)"
    and "weightedScore (fst (scorePR this w pr)) =
           calculateWeightedScore this (r_scores (fst (scorePR this w pr)))"
  using assms by (simp_all add: scorePR_def Let_def split: prod.splits)

text \<open>
  Claim C1, as stated: a failing sub-score computation falls back to the neutral
  default 50. It fails where the request of \<open>countTestFiles\<close> is refused: the testing
  sub-score of the report is 60.
\<close>

theorem C1_counterexample:
  "files_codeQuality ex_world_testing_down = Inr ex_files
   \<and> countTestFiles ex_world_testing_down = Inl (Error ''Service Unavailable'')
   \<and> score (s_testing (r_scores (fst (scorePR ex_scorer ex_world_testing_down ex_pr1)))) = 60
   \<and> score (s_testing (r_scores (fst (scorePR ex_scorer ex_world_testing_down ex_pr1)))) \<noteq> 50"
  by code_simp

text \<open>
  Claim C1, amended: when a sub-score computation fails inside its \<open>try\<close> block, the
  report is not aborted. The failing sub-score falls back to the fixed default of its
  criterion (code quality 50, testing 60, performance 70, security 80, documentation
  60) and a warning with the message of the error is logged; each of the five
  sub-scores of the report is the one its own function computes, the log of the report
  is made of their logs, and the weighted total is computed from them. (The file
  request of \<open>scoreCodeQuality\<close>, which stands before its \<open>try\<close> block, is assumed
  to succeed.)
\<close>

theorem C1_fallback_per_criterion:
  assumes "files_codeQuality w = Inr fs"
  shows "scoreCodeQuality this w
           = Inr (s_codeQuality (r_scores (fst (scorePR this w pr))),
                  snd (projr (scoreCodeQuality this w)))
       \<and> s_testing (r_scores (fst (scorePR this w pr))) = fst (scoreTesting w)
       \<and> s_performance (r_scores (fst (scorePR this w pr))) = fst (scorePerformance w)
       \<and> s_security (r_scores (fst (scorePR this w pr))) = fst (scoreSecurity w)
       \<and> s_documentation (r_scores (fst (scorePR this w pr))) = fst (scoreDocumentation w)
       \<and> snd (scorePR this w pr)
           = snd (projr (scoreCodeQuality this w)) @ snd (scoreTesting w)
             @ snd (scorePerformance w) @ snd (scoreSecurity w) @ snd (scoreDocumentation w)
       \<and> weightedScore (fst (scorePR this w pr))
           = calculateWeightedScore this (r_scores (fst (scorePR this w pr)))
       \<and> (countTestFiles w = Inl e \<longrightarrow>
            score (s_testing (r_scores (fst (scorePR this w pr)))) = 60
            \<and> Warning (''Testing analysis failed: '' @ message e)
                 \<in> set (snd (scorePR this w pr)))
       \<and> (detectOptimizations w = Inl e \<longrightarrow>
            score (s_performance (r_scores (fst (scorePR this w pr)))) = 70
            \<and> Warning (''Performance analysis failed: '' @ message e)
                 \<in> set (snd (scorePR this w pr)))
       \<and> (analyzeInputValidation w = Inl e \<longrightarrow>
            score (s_security (r_scores (fst (scorePR this w pr)))) = 80
            \<and> Warning (''Security analysis failed: '' @ message e)
                 \<in> set (snd (scorePR this w pr)))
       \<and> (\<not> isl (analyzeInputValidation w) \<and> analyzeErrorHandling w = Inl e \<longrightarrow>
            score (s_security (r_scores (fst (scorePR this w pr)))) = 80
            \<and> Warning (''Security analysis failed: '' @ message e)
                 \<in> set (snd (scorePR this w pr)))
       \<and> (files_documentation w = Inl e \<longrightarrow>
            score (s_documentation (r_scores (fst (scorePR this w pr)))) = 60
            \<and> Warning (''Documentation analysis failed: '' @ message e)
                 \<in> set (snd (scorePR this w pr)))
       \<and> (ca_analyzeComplexity (codeAnalyzer this) fs = Inl e \<longrightarrow>
            score (s_codeQuality (r_scores (fst (scorePR this w pr)))) = 50
            \<and> Warning (''Code quality analysis failed: '' @ message e)
                 \<in> set (snd (scorePR this w pr)))
       \<and> (\<not> isl (ca_analyzeComplexity (codeAnalyzer this) fs)
            \<and> ca_checkCodingStandards (codeAnalyzer this) fs = Inl e \<longrightarrow>
            score (s_codeQuality (r_scores (fst (scorePR this w pr)))) = 50
            \<and> Warning (''Code quality analysis failed: '' @ message e)
                 \<in> set (snd (scorePR this w pr)))
       \<and> (\<not> isl (ca_analyzeComplexity (codeAnalyzer this) fs)
            \<and> \<not> isl (ca_checkCodingStandards (codeAnalyzer this) fs)
            \<and> ca_detectDuplication (codeAnalyzer this) fs = Inl e \<longrightarrow>
            score (s_codeQuality (r_scores (fst (scorePR this w pr)))) = 50
            \<and> Warning (''Code quality analysis failed: '' @ message e)
                 \<in> set (snd (scorePR this w pr)))
       \<and> (\<not> isl (ca_analyzeComplexity (codeAnalyzer this) fs)
            \<and> \<not> isl (ca_checkCodingStandards (codeAnalyzer this) fs)
            \<and> \<not> isl (ca_detectDuplication (codeAnalyzer this) fs)
            \<and> ca_calculateMaintainability (codeAnalyzer this) fs = Inl e \<longrightarrow>
            score (s_codeQuality (r_scores (fst (scorePR this w pr)))) = 50
            \<and> Warning (''Code quality analysis failed: '' @ message e)
                 \<in> set (snd (scorePR this w pr)))"
proof -
  obtain cq l where cq: "scoreCodeQuality this w = Inr (cq, l)"
    using scoreCodeQuality_returns[OF assms] by blast
  note sc = scorePR_scores[OF cq, of pr]
  have t: "s_testing (r_scores (fst (scorePR this w pr))) = fst (scoreTesting w)"
    and p: "s_performance (r_scores (fst (scorePR this w pr))) = fst (scorePerformance w)"
    and s: "s_security (r_scores (fst (scorePR this w pr))) = fst (scoreSecurity w)"
    and d: "s_documentation (r_scores (fst (scorePR this w pr))) = fst (scoreDocumentation w)"
    and q: "s_codeQuality (r_scores (fst (scorePR this w pr))) = cq"
    by (simp_all add: sc(1))
  have pq: "fst (projr (scoreCodeQuality this w)) = cq" "snd (projr (scoreCodeQuality this w)) = l"
    by (simp_all add: cq)
  have tie: "scoreCodeQuality this w
           = Inr (s_codeQuality (r_scores (fst (scorePR this w pr))),
                  snd (projr (scoreCodeQuality this w)))"
    by (simp add: q pq cq)
  have log: "snd (scorePR this w pr)
           = snd (projr (scoreCodeQuality this w)) @ snd (scoreTesting w)
             @ snd (scorePerformance w) @ snd (scoreSecurity w) @ snd (scoreDocumentation w)"
    by (simp add: sc(2) pq)
  note qf = scoreCodeQuality_fallback_exact[OF assms, of this e, unfolded pq]
  have q1: "score (s_codeQuality (r_scores (fst (scorePR this w pr)))) = 50
        \<and> Warning (''Code quality analysis failed: '' @ message e)
              \<in> set (snd (scorePR this w pr))"
    if "score cq = 50 \<and> l = [Warning (''Code quality analysis failed: '' @ message e)]"
    using that q sc(2) by simp
  have f1: "countTestFiles w = Inl e \<longrightarrow>
            score (s_testing (r_scores (fst (scorePR this w pr)))) = 60
            \<and> Warning (''Testing analysis failed: '' @ message e)
                 \<in> set (snd (scorePR this w pr))"
    using scoreTesting_fallback[of w e] t sc(2) by simp
  have f2: "detectOptimizations w = Inl e \<longrightarrow>
            score (s_performance (r_scores (fst (scorePR this w pr)))) = 70
            \<and> Warning (''Performance analysis failed: '' @ message e)
                 \<in> set (snd (scorePR this w pr))"
    using scorePerformance_fallback[of w e] p sc(2) by simp
  have f3: "analyzeInputValidation w = Inl e \<longrightarrow>
            score (s_security (r_scores (fst (scorePR this w pr)))) = 80
            \<and> Warning (''Security analysis failed: '' @ message e)
                 \<in> set (snd (scorePR this w pr))"
    using scoreSecurity_fallback_validation[of w e] s sc(2) by simp
  have f4: "\<not> isl (analyzeInputValidation w) \<and> analyzeErrorHandling w = Inl e \<longrightarrow>
            score (s_security (r_scores (fst (scorePR this w pr)))) = 80
            \<and> Warning (''Security analysis failed: '' @ message e)
                 \<in> set (snd (scorePR this w pr))"
    using scoreSecurity_fallback_errors[of w e] s sc(2) by simp
  have f5: "files_documentation w = Inl e \<longrightarrow>
            score (s_documentation (r_scores (fst (scorePR this w pr)))) = 60
            \<and> Warning (''Documentation analysis failed: '' @ message e)
                 \<in> set (snd (scorePR this w pr))"
    using scoreDocumentation_fallback[of w e] d sc(2) by simp
  have g1: "ca_analyzeComplexity (codeAnalyzer this) fs = Inl e \<longrightarrow>
            score (s_codeQuality (r_scores (fst (scorePR this w pr)))) = 50
            \<and> Warning (''Code quality analysis failed: '' @ message e)
                 \<in> set (snd (scorePR this w pr))"
    using qf(1) q1 by blast
  have g2: "\<not> isl (ca_analyzeComplexity (codeAnalyzer this) fs)
            \<and> ca_checkCodingStandards (codeAnalyzer this) fs = Inl e \<longrightarrow>
            score (s_codeQuality (r_scores (fst (scorePR this w pr)))) = 50
            \<and> Warning (''Code quality analysis failed: '' @ message e)
                 \<in> set (snd (scorePR this w pr))"
    using qf(2) q1 by blast
  have g3: "\<not> isl (ca_analyzeComplexity (codeAnalyzer this) fs)
            \<and> \<not> isl (ca_checkCodingStandards (codeAnalyzer this) fs)
            \<and> ca_detectDuplication (codeAnalyzer this) fs = Inl e \<longrightarrow>
            score (s_codeQuality (r_scores (fst (scorePR this w pr)))) = 50
            \<and> Warning (''Code quality analysis failed: '' @ message e)
                 \<in> set (snd (scorePR this w pr))"
    using qf(3) q1 by blast
  have g4: "\<not> isl (ca_analyzeComplexity (codeAnalyzer this) fs)
            \<and> \<not> isl (ca_checkCodingStandards (codeAnalyzer this) fs)
            \<and> \<not> isl (ca_detectDuplication (codeAnalyzer this) fs)
            \<and> ca_calculateMaintainability (codeAnalyzer this) fs = Inl e \<longrightarrow>
            score (s_codeQuality (r_scores (fst (scorePR this w pr)))) = 50
            \<and> Warning (''Code quality analysis failed: '' @ message e)
                 \<in> set (snd (scorePR this w pr))"
    using qf(4) q1 by blast
  from tie t p s d log sc(3) f1 f2 f3 f4 f5 g1 g2 g3 g4 show ?thesis
    by (intro conjI) assumption+
qed

lemma ex_performance_score: "score (fst (scorePerformance ex_world_testing_down)) = 65.5"
  by code_simp

lemma ex_quality_score:
  "scoreCodeQuality ex_scorer ex_world_testing_down
   = Inr (\<lparr>score = 90.75,
            metrics = Some \<lparr>complexity = 2, maintainability = 85, duplication = 0,
                             standards = 90\<rparr>,
            details = quality_details\<rparr>, [])"
  by code_simp

theorem C1_fallback_per_criterion_witness:
  "files_codeQuality ex_world_testing_down = Inr ex_files
   \<and> countTestFiles ex_world_testing_down = Inl (Error ''Service Unavailable'')
   \<and> score (s_testing (r_scores (fst (scorePR ex_scorer ex_world_testing_down ex_pr1)))) = 60
   \<and> Warning ''Testing analysis failed: Service Unavailable''
        \<in> set (snd (scorePR ex_scorer ex_world_testing_down ex_pr1))
   \<and> score (s_codeQuality (r_scores (fst (scorePR ex_scorer ex_world_testing_down ex_pr1))))
        = 90.75
   \<and> s_performance (r_scores (fst (scorePR ex_scorer ex_world_testing_down ex_pr1)))
        = fst (scorePerformance ex_world_testing_down)
   \<and> score (fst (scorePerformance ex_world_testing_down)) = 65.5"
proof -
  have h1: "files_codeQuality ex_world_testing_down = Inr ex_files"
    by (simp add: ex_world_testing_down_def ex_world_def)
  have h2: "countTestFiles ex_world_testing_down = Inl (Error ''Service Unavailable'')"
    by (simp add: countTestFiles_def ex_world_testing_down_def ex_world_def)
  note c = C1_fallback_per_criterion[OF h1, of ex_scorer ex_pr1 "Error ''Service Unavailable''"]
  have t: "score (s_testing (r_scores (fst (scorePR ex_scorer ex_world_testing_down ex_pr1)))) = 60
           \<and> Warning (''Testing analysis failed: '' @ message (Error ''Service Unavailable''))
                \<in> set (snd (scorePR ex_scorer ex_world_testing_down ex_pr1))"
    using c h2 by blast
  have p: "s_performance (r_scores (fst (scorePR ex_scorer ex_world_testing_down ex_pr1)))
           = fst (scorePerformance ex_world_testing_down)"
    using c by blast
  have "scoreCodeQuality ex_scorer ex_world_testing_down
        = Inr (s_codeQuality (r_scores (fst (scorePR ex_scorer ex_world_testing_down ex_pr1))),
               snd (projr (scoreCodeQuality ex_scorer ex_world_testing_down)))"
    using c by blast
  then have "s_codeQuality (r_scores (fst (scorePR ex_scorer ex_world_testing_down ex_pr1)))
             = fst (projr (scoreCodeQuality ex_scorer ex_world_testing_down))"
    by (metis fst_conv sum.sel(2))
  then have q: "score (s_codeQuality (r_scores (fst (scorePR ex_scorer ex_world_testing_down
                  ex_pr1)))) = 90.75"
    by (simp add: ex_quality_score)
  have m: "''Testing analysis failed: '' @ message (Error ''Service Unavailable'')
           = ''Testing analysis failed: Service Unavailable''"
    by simp
  show ?thesis
    using h1 h2 t p q ex_performance_score unfolding m by blast
qed

subsection \<open>Dependence on the random draws\<close>

lemma scoreCodeQuality_draws:
  "scoreCodeQuality this (w\<lparr>rnd_coverage := x\<rparr>) = scoreCodeQuality this w"
  "scoreCodeQuality this (w\<lparr>rnd_status := x\<rparr>) = scoreCodeQuality this w"
  "scoreCodeQuality this (w\<lparr>rnd_edgeCases := x\<rparr>) = scoreCodeQuality this w"
  "scoreCodeQuality this (w\<lparr>rnd_benchmarks := x\<rparr>) = scoreCodeQuality this w"
  "scoreCodeQuality this (w\<lparr>rnd_vulnerabilities := x\<rparr>) = scoreCodeQuality this w"
  "scoreCodeQuality this (w\<lparr>rnd_practices := x\<rparr>) = scoreCodeQuality this w"
  by (simp_all add: scoreCodeQuality_def)

lemma scoreDocumentation_draws:
  "scoreDocumentation (w\<lparr>rnd_coverage := x\<rparr>) = scoreDocumentation w"
  "scoreDocumentation (w\<lparr>rnd_status := x\<rparr>) = scoreDocumentation w"
  "scoreDocumentation (w\<lparr>rnd_edgeCases := x\<rparr>) = scoreDocumentation w"
  "scoreDocumentation (w\<lparr>rnd_benchmarks := x\<rparr>) = scoreDocumentation w"
  "scoreDocumentation (w\<lparr>rnd_vulnerabilities := x\<rparr>) = scoreDocumentation w"
  "scoreDocumentation (w\<lparr>rnd_practices := x\<rparr>) = scoreDocumentation w"
  by (simp_all add: scoreDocumentation_def)

lemma scoreTesting_draws:
  "scoreTesting (w\<lparr>rnd_benchmarks := x\<rparr>) = scoreTesting w"
  "scoreTesting (w\<lparr>rnd_vulnerabilities := x\<rparr>) = scoreTesting w"
  "scoreTesting (w\<lparr>rnd_practices := x\<rparr>) = scoreTesting w"
  by (simp_all add: scoreTesting_def analyzeTestCoverage_def countTestFiles_def checkTestStatus_def
      analyzeEdgeCaseCoverage_def Let_def split: sum.splits)

lemma scorePerformance_draws:
  "scorePerformance (w\<lparr>rnd_coverage := x\<rparr>) = scorePerformance w"
  "scorePerformance (w\<lparr>rnd_status := x\<rparr>) = scorePerformance w"
  "scorePerformance (w\<lparr>rnd_edgeCases := x\<rparr>) = scorePerformance w"
  "scorePerformance (w\<lparr>rnd_vulnerabilities := x\<rparr>) = scorePerformance w"
  "scorePerformance (w\<lparr>rnd_practices := x\<rparr>) = scorePerformance w"
  by (simp_all add: scorePerformance_def analyzePerformanceBenchmarks_def detectOptimizations_def
      Let_def split: sum.splits)

lemma scoreSecurity_draws:
  "scoreSecurity (w\<lparr>rnd_coverage := x\<rparr>) = scoreSecurity w"
  "scoreSecurity (w\<lparr>rnd_status := x\<rparr>) = scoreSecurity w"
  "scoreSecurity (w\<lparr>rnd_edgeCases := x\<rparr>) = scoreSecurity w"
  "scoreSecurity (w\<lparr>rnd_benchmarks := x\<rparr>) = scoreSecurity w"
  by (simp_all add: scoreSecurity_def scanSecurityVulnerabilities_def analyzeSecurityPractices_def
      analyzeInputValidation_def analyzeErrorHandling_def Let_def split: sum.splits)

lemma scorePR_sub_scores:
  "s_codeQuality (r_scores (fst (scorePR this w pr)))
     = (case scoreCodeQuality this w of
          Inl e \<Rightarrow> default_criterion None | Inr (cq, l) \<Rightarrow> cq)"
  "s_testing (r_scores (fst (scorePR this w pr)))
     = (case scoreCodeQuality this w of
          Inl e \<Rightarrow> default_criterion None | Inr x \<Rightarrow> fst (scoreTesting w))"
  "s_performance (r_scores (fst (scorePR this w pr)))
     = (case scoreCodeQuality this w of
          Inl e \<Rightarrow> default_criterion None | Inr x \<Rightarrow> fst (scorePerformance w))"
  "s_security (r_scores (fst (scorePR this w pr)))
     = (case scoreCodeQuality this w of
          Inl e \<Rightarrow> default_criterion None | Inr x \<Rightarrow> fst (scoreSecurity w))"
  "s_documentation (r_scores (fst (scorePR this w pr)))
     = (case scoreCodeQuality this w of
          Inl e \<Rightarrow> default_criterion None | Inr x \<Rightarrow> fst (scoreDocumentation w))"
  by (simp_all add: scorePR_def getDefaultScore_def Let_def split: sum.splits prod.splits)

text \<open>
  Claim C3, as stated: two evaluations of \<open>scorePR\<close> with the same configuration and
  the same file data produce identical sub-scores and an identical weighted total.
  It fails: the two example runs receive the same file lists and differ in the value
  that \<open>Math.random()\<close> returns in \<open>analyzeTestCoverage\<close>; their testing sub-scores
  are 58 and 48 and their weighted totals differ.
\<close>

theorem C3_counterexample:
  "files_codeQuality ex_world_redrawn = files_codeQuality ex_world
   \<and> files_countTestFiles ex_world_redrawn = files_countTestFiles ex_world
   \<and> files_optimizations ex_world_redrawn = files_optimizations ex_world
   \<and> files_inputValidation ex_world_redrawn = files_inputValidation ex_world
   \<and> files_errorHandling ex_world_redrawn = files_errorHandling ex_world
   \<and> files_documentation ex_world_redrawn = files_documentation ex_world
   \<and> score (s_testing (r_scores (fst (scorePR ex_scorer ex_world ex_pr1)))) = 58
   \<and> score (s_testing (r_scores (fst (scorePR ex_scorer ex_world_redrawn ex_pr1)))) = 48
   \<and> weightedScore (fst (scorePR ex_scorer ex_world ex_pr1))
        \<noteq> weightedScore (fst (scorePR ex_scorer ex_world_redrawn ex_pr1))"
  by code_simp

text \<open>
  Claim C3, amended: with the same configuration, analyzer and file data, the
  code-quality and documentation sub-scores of two evaluations are identical whatever
  \<open>Math.random()\<close> returns; the testing, performance and security sub-scores are
  placeholder metrics computed from random draws, and each of them is identical in
  two evaluations that agree on the draws of its own criterion (coverage, status and
  edge cases for testing; benchmarks for performance; vulnerabilities and practices
  for security).
\<close>

theorem C3_sub_scores_and_draws:
  "s_codeQuality (r_scores (fst (scorePR this
       (w\<lparr>rnd_coverage := a, rnd_status := b, rnd_edgeCases := c,
          rnd_benchmarks := d, rnd_vulnerabilities := e, rnd_practices := f\<rparr>) pr)))
     = s_codeQuality (r_scores (fst (scorePR this w pr)))
   \<and> s_documentation (r_scores (fst (scorePR this
       (w\<lparr>rnd_coverage := a, rnd_status := b, rnd_edgeCases := c,
          rnd_benchmarks := d, rnd_vulnerabilities := e, rnd_practices := f\<rparr>) pr)))
     = s_documentation (r_scores (fst (scorePR this w pr)))
   \<and> s_testing (r_scores (fst (scorePR this
       (w\<lparr>rnd_benchmarks := d, rnd_vulnerabilities := e, rnd_practices := f\<rparr>) pr)))
     = s_testing (r_scores (fst (scorePR this w pr)))
   \<and> s_performance (r_scores (fst (scorePR this
       (w\<lparr>rnd_coverage := a, rnd_status := b, rnd_edgeCases := c,
          rnd_vulnerabilities := e, rnd_practices := f\<rparr>) pr)))
     = s_performance (r_scores (fst (scorePR this w pr)))
   \<and> s_security (r_scores (fst (scorePR this
       (w\<lparr>rnd_coverage := a, rnd_status := b, rnd_edgeCases := c,
          rnd_benchmarks := d\<rparr>) pr)))
     = s_security (r_scores (fst (scorePR this w pr)))"
  by (simp add: scorePR_sub_scores scoreCodeQuality_draws scoreDocumentation_draws
      scoreTesting_draws scorePerformance_draws scoreSecurity_draws split: sum.splits)

section \<open>Properties of the feature detector\<close>

subsection \<open>Symmetry of relatedness\<close>

lemma levenshtein_sym: "levenshtein s t = levenshtein t s"
proof (induction s t rule: levenshtein.induct)
  case (1 t)
  then show ?case by (cases t) simp_all
next
  case (2 a s)
  then show ?case by simp
next
  case (3 a s b t)
  then show ?case by (auto simp: min.commute min.left_commute)
qed

lemma levenshtein_ratio_sym: "levenshtein_ratio a b = levenshtein_ratio b a"
  by (simp add: levenshtein_ratio_def Let_def levenshtein_sym[of "toLowerCase a"]
      max.commute eq_commute[of "toLowerCase a"])

lemma isBranchRelated_loop_sym:
  assumes "\<And>a b. similarity this a b = similarity this b a"
  shows "isBranchRelated_loop this ps b1 b2 = isBranchRelated_loop this ps b2 b1"
proof (induction ps)
  case Nil
  then show ?case by simp
next
  case (Cons p ps)
  then show ?case
    using assms by (auto split: option.splits)
qed

lemma areLabelsRelated_sym: "areLabelsRelated this pf a b = areLabelsRelated this pf b a"
  by (auto simp: areLabelsRelated_def Let_def list_ex_iff)

lemma overlapRatio_sym: "overlapRatio pf a b = overlapRatio pf b a"
  by (simp add: overlapRatio_def Let_def Int_commute Un_commute)

text \<open>
  Claim C5: relatedness is symmetric. For every configuration, every state of the
  platform (labels and changed files per pull request) and every two pull requests
  \<open>a\<close> and \<open>b\<close>, \<open>isPRRelated a b\<close> equals \<open>isPRRelated b a\<close>. The string metric
  is not code of the repository; it is required to be symmetric, as the Levenshtein
  ratio is.
\<close>

theorem C5_isPRRelated_symmetric:
  assumes "\<forall>x y. similarity this x y = similarity this y x"
  shows "isPRRelated this pf a b = isPRRelated this pf b a"
proof -
  have sym: "\<And>x y. similarity this x y = similarity this y x"
    using assms by blast
  have "isBranchRelated this (head_ref a) (head_ref b)
        = isBranchRelated this (head_ref b) (head_ref a)"
    unfolding isBranchRelated_def by (rule isBranchRelated_loop_sym[OF sym])
  moreover have "areTitlesRelated this (title a) (title b)
                 = areTitlesRelated this (title b) (title a)"
    by (simp add: areTitlesRelated_def sym[of "toLowerCase (title a)"])
  moreover have "hasFileOverlap this pf a b = hasFileOverlap this pf b a"
    by (simp add: hasFileOverlap_def overlapRatio_sym[of pf a b])
  ultimately show ?thesis
    using areLabelsRelated_sym[of this pf a b]
    by (simp add: isPRRelated_def)
qed

lemma ex_pr1_pr2_related: "isPRRelated ex_detector ex_platform ex_pr1 ex_pr2"
  by code_simp

theorem C5_isPRRelated_symmetric_witness:
  "(\<forall>x y. similarity ex_detector x y = similarity ex_detector y x)
   \<and> isPRRelated ex_detector ex_platform ex_pr1 ex_pr2
   \<and> isPRRelated ex_detector ex_platform ex_pr2 ex_pr1"
proof -
  have h: "\<forall>x y. similarity ex_detector x y = similarity ex_detector y x"
    using levenshtein_ratio_sym by (simp add: ex_detector_def)
  show ?thesis
    using h C5_isPRRelated_symmetric[OF h, of ex_platform ex_pr1 ex_pr2] ex_pr1_pr2_related
    by simp
qed

subsection \<open>File overlap of two pull requests without files\<close>

text \<open>
  Claim C9: for two pull requests that both have an empty set of changed files, the
  overlap ratio is the division 0 / 0, which is \<open>NaN\<close> and no error, and the
  file-overlap relation is false whatever the threshold.
\<close>

theorem C9_no_files_no_overlap:
  assumes "set (map filename (pr_files pf (number a))) = {}"
    and "set (map filename (pr_files pf (number b))) = {}"
  shows "overlapRatio pf a b = NaN \<and> hasFileOverlap this pf a b = False"
  using assms by (simp add: hasFileOverlap_def overlapRatio_def js_div_def)

theorem C9_no_files_no_overlap_witness:
  "set (map filename (pr_files ex_platform_empty (number ex_pr1))) = {}
   \<and> set (map filename (pr_files ex_platform_empty (number ex_pr2))) = {}
   \<and> overlapRatio ex_platform_empty ex_pr1 ex_pr2 = NaN
   \<and> hasFileOverlap ex_detector ex_platform_empty ex_pr1 ex_pr2 = False"
proof -
  have h1: "set (map filename (pr_files ex_platform_empty (number ex_pr1))) = {}"
    by (simp add: ex_platform_empty_def)
  have h2: "set (map filename (pr_files ex_platform_empty (number ex_pr2))) = {}"
    by (simp add: ex_platform_empty_def)
  show ?thesis
    using h1 h2 C9_no_files_no_overlap[OF h1 h2, of ex_detector] by blast
qed

subsection \<open>Grouping\<close>

lemma groups_loop_two_members:
  assumes "\<forall>g \<in> set groups. 2 \<le> length (prs g)"
  shows "\<forall>g \<in> set (groupPRsByFeature_loop this pf pulls groups processed). 2 \<le> length (prs g)"
  using assms
proof (induction pulls arbitrary: groups processed)
  case Nil
  then show ?case by simp
next
  case (Cons pr rest)
  show ?case
  proof (cases "number pr \<in> processed \<or> detectRelatedPRs this pf pr = []")
    case True
    then show ?thesis using Cons by (auto simp: Let_def)
  next
    case False
    let ?g = "\<lparr>feature = extractFeatureName this pr, prs = pr # detectRelatedPRs this pf pr\<rparr>"
    have "\<forall>g \<in> set (groups @ [?g]). 2 \<le> length (prs g)"
      using Cons.prems False by (cases "detectRelatedPRs this pf pr") auto
    from Cons.IH[OF this] show ?thesis using False by (simp add: Let_def)
  qed
qed

text \<open>Every emitted group has the anchor and at least one related pull request.\<close>

lemma groups_have_two_members:
  "\<forall>g \<in> set (groupPRsByFeature this pf pulls). 2 \<le> length (prs g)"
  unfolding groupPRsByFeature_def by (rule groups_loop_two_members) simp

text \<open>
  Claim C2 says that each pull request is a member of at most one emitted group (and
  that every group has at least two members, which \<open>groups_have_two_members\<close>
  shows). On the three example pull requests the code emits two groups, anchored at
  1 and at 3, and pull request 2 is a member of both: the pull requests related to an
  anchor are collected from all open ones, processed or not.
\<close>

theorem C2_member_of_two_groups:
  "map (\<lambda>g. map number (prs g))
       (groupPRsByFeature ex_detector ex_platform (open_prs ex_platform)) = [[1, 2], [3, 2]]
   \<and> membership_count (groupPRsByFeature ex_detector ex_platform (open_prs ex_platform)) 2 = 2"
  by code_simp

section \<open>Properties of duplication detection\<close>

lemma countDuplications_pairs:
  "countDuplications bs = length (filter (\<lambda>(x, y). areSimilarBlocks x y) (block_pairs bs))"
  by (induction bs) (simp_all add: filter_map comp_def)

lemma areSimilarBlocks_iff:
  "areSimilarBlocks b1 b2
   \<longleftrightarrow> 50 \<le> length b1 \<and> 50 \<le> length b2 \<and> js_gt (wordOverlap b1 b2) 0.7"
  by (auto simp: areSimilarBlocks_def)

text \<open>
  Claim C10: a pair of extracted blocks is never counted as a duplication when one
  of the two texts is shorter than 50 characters, however high their word overlap
  is; a pair is similar exactly when both texts have at least 50 characters and the
  word overlap exceeds 0.7, and the duplication score is the number of such pairs
  \<open>i < j\<close> among the extracted blocks, capped at 10.
\<close>

theorem C10_short_blocks_never_duplicates:
  "(length b1 < 50 \<or> length b2 < 50 \<longrightarrow> \<not> areSimilarBlocks b1 b2)
   \<and> (areSimilarBlocks b1 b2
        \<longleftrightarrow> 50 \<le> length b1 \<and> 50 \<le> length b2 \<and> js_gt (wordOverlap b1 b2) 0.7)
   \<and> detectDuplication fs
        = min (length (filter (\<lambda>(x, y). 50 \<le> length x \<and> 50 \<le> length y
                                        \<and> js_gt (wordOverlap x y) 0.7)
                         (block_pairs (collectCodeBlocks fs)))) 10"
proof -
  have "(\<lambda>(x, y). areSimilarBlocks x y)
        = (\<lambda>(x, y). 50 \<le> length x \<and> 50 \<le> length y \<and> js_gt (wordOverlap x y) 0.7)"
    by (simp add: areSimilarBlocks_iff)
  then show ?thesis
    by (simp add: detectDuplication_def countDuplications_pairs areSimilarBlocks_iff)
qed

lemma ex_repeated_blocks: "collectCodeBlocks ex_repeated = [ex_block, ex_block]"
  by code_simp

lemma ex_block_overlap: "length ex_block = 35 \<and> wordOverlap ex_block ex_block = Fin 1"
  by code_simp

theorem C10_short_blocks_never_duplicates_witness:
  "length ex_block < 50
   \<and> js_gt (wordOverlap ex_block ex_block) 0.7
   \<and> \<not> areSimilarBlocks ex_block ex_block
   \<and> collectCodeBlocks ex_repeated = [ex_block, ex_block]
   \<and> detectDuplication ex_repeated = 0"
proof -
  have h: "length ex_block < 50" "js_gt (wordOverlap ex_block ex_block) 0.7"
    using ex_block_overlap by simp_all
  note c = C10_short_blocks_never_duplicates[of ex_block ex_block ex_repeated]
  have n: "\<not> areSimilarBlocks ex_block ex_block"
    using c h by blast
  have "detectDuplication ex_repeated = 0"
    using c h by (simp add: ex_repeated_blocks)
  then show ?thesis
    using h n ex_repeated_blocks by blast
qed

section \<open>Properties of the snippet extractor\<close>

subsection \<open>Ranking\<close>

lemma insertBy_mset: "mset (insertBy cmp x xs) = add_mset x (mset xs)"
  by (induction xs) simp_all

lemma sortBy_mset: "mset (sortBy cmp xs) = mset xs"
  unfolding sortBy_def by (induction xs) (simp_all add: insertBy_mset)

lemma insertBy_set: "set (insertBy cmp x xs) = insert x (set xs)"
  by (induction xs) auto

lemma compareSnippets_le: "compareSnippets a b \<le> 0 \<longleftrightarrow> ranks_before a b"
  by (auto simp: compareSnippets_def ranks_before_def)

lemma ranks_before_linear: "\<not> ranks_before a b \<Longrightarrow> ranks_before b a"
  by (auto simp: ranks_before_def)

lemma ranks_before_trans: "ranks_before a b \<Longrightarrow> ranks_before b c \<Longrightarrow> ranks_before a c"
  by (auto simp: ranks_before_def)

lemma insertBy_sorted:
  "sorted_wrt ranks_before xs \<Longrightarrow> sorted_wrt ranks_before (insertBy compareSnippets x xs)"
proof (induction xs)
  case Nil
  then show ?case by simp
next
  case (Cons y ys)
  show ?case
  proof (cases "compareSnippets x y \<le> 0")
    case True
    then have "ranks_before x y" by (simp add: compareSnippets_le)
    then have "\<forall>z \<in> set (y # ys). ranks_before x z"
      using Cons.prems ranks_before_trans by auto
    then show ?thesis using True Cons.prems by simp
  next
    case False
    then have "ranks_before y x"
      using ranks_before_linear by (simp add: compareSnippets_le)
    then show ?thesis
      using False Cons by (auto simp: insertBy_set)
  qed
qed

lemma rankSnippets_sorted: "sorted_wrt ranks_before (rankSnippets xs)"
  unfolding rankSnippets_def sortBy_def by (induction xs) (simp_all add: insertBy_sorted)

text \<open>
  Claim C7: for every list of candidate snippets the ranking is sorted by quality
  score descending and, among snippets of equal score, by integration complexity
  ascending (low, medium, high); it is a rearrangement of the candidates, and the
  returned list is its first ten elements, so it has at most ten.
\<close>

theorem C7_ranking_sorted_top_ten:
  "sorted_wrt ranks_before (rankSnippets (concat prSnippets))
   \<and> mset (rankSnippets (concat prSnippets)) = mset (concat prSnippets)
   \<and> extractSuperiorSnippets prSnippets = take 10 (rankSnippets (concat prSnippets))
   \<and> sorted_wrt ranks_before (extractSuperiorSnippets prSnippets)
   \<and> length (extractSuperiorSnippets prSnippets) \<le> 10"
  by (simp add: extractSuperiorSnippets_def rankSnippets_sorted sorted_wrt_take)
     (simp add: rankSnippets_def sortBy_mset)

lemma ex_ranking:
  "extractSuperiorSnippets [[ex_snippet 80 High, ex_snippet 90 Medium], [ex_snippet 80 Low]]
   = [ex_snippet 90 Medium, ex_snippet 80 Low, ex_snippet 80 High]"
  by (simp add: extractSuperiorSnippets_def rankSnippets_def sortBy_def compareSnippets_def
      ex_snippet_def)

theorem C7_ranking_sorted_top_ten_witness:
  "extractSuperiorSnippets [[ex_snippet 80 High, ex_snippet 90 Medium], [ex_snippet 80 Low]]
     = [ex_snippet 90 Medium, ex_snippet 80 Low, ex_snippet 80 High]
   \<and> sorted_wrt ranks_before [ex_snippet 90 Medium, ex_snippet 80 Low, ex_snippet 80 High]"
  using C7_ranking_sorted_top_ten
      [of "[[ex_snippet 80 High, ex_snippet 90 Medium], [ex_snippet 80 Low]]"]
  by (simp only: ex_ranking) simp

subsection \<open>Improvements\<close>

lemma comparison_iff:
  "cmp \<in> set (findSimilarChangeRegions sim winningChanges losingChanges)
   \<longleftrightarrow> (\<exists>lc \<in> set losingChanges. \<exists>wc \<in> set winningChanges.
          0.3 < calculateCodeSimilarity sim (code wc) (code lc)
          \<and> calculateCodeSimilarity sim (code wc) (code lc) < 0.8
          \<and> cmp = \<lparr>winningSnippet = wc, losingSnippet = lc,
                    cmp_similarity = calculateCodeSimilarity sim (code wc) (code lc)\<rparr>)"
  by (auto simp: findSimilarChangeRegions_def Let_def split: if_splits)

lemma snippet_iff:
  "s \<in> set (compareFileImplementations sim winningFile losingFile losingPR)
   \<longleftrightarrow> (\<exists>cmp \<in> set (findSimilarChangeRegions sim (extractCodeChanges (patch winningFile))
                        (extractCodeChanges (patch losingFile))).
          75 < q_score (evaluateSnippetQuality (code (losingSnippet cmp)))
          \<and> s = improvement_of losingFile losingPR cmp)"
  by (auto simp: compareFileImplementations_def Let_def split: if_splits)

text \<open>
  Claim C6: for a losing block and a winning block of a file changed on both sides,
  the pair yields an improvement snippet if and only if their normalized similarity
  is strictly between 0.3 and 0.8 and the quality score of the losing block is
  strictly greater than 75; in particular a pair whose similarity is 0.8 or more
  yields none.
\<close>

theorem C6_improvement_iff:
  assumes "lc \<in> set (extractCodeChanges (patch losingFile))"
    and "wc \<in> set (extractCodeChanges (patch winningFile))"
  shows "((\<exists>s \<in> set (compareFileImplementations sim winningFile losingFile losingPR).
            sn_type s = Improvement \<and> sn_snippet s = ChangeBody lc
            \<and> winningAlternative s = Some wc)
          \<longleftrightarrow> (0.3 < calculateCodeSimilarity sim (code wc) (code lc)
               \<and> calculateCodeSimilarity sim (code wc) (code lc) < 0.8
               \<and> 75 < q_score (evaluateSnippetQuality (code lc))))
       \<and> (0.8 \<le> calculateCodeSimilarity sim (code wc) (code lc) \<longrightarrow>
            \<not> (\<exists>s \<in> set (compareFileImplementations sim winningFile losingFile losingPR).
                 sn_snippet s = ChangeBody lc \<and> winningAlternative s = Some wc))"
proof -
  let ?S = "set (compareFileImplementations sim winningFile losingFile losingPR)"
  let ?sim = "calculateCodeSimilarity sim (code wc) (code lc)"
  let ?cmp = "\<lparr>winningSnippet = wc, losingSnippet = lc, cmp_similarity = ?sim\<rparr>"
  have body: "0.3 < ?sim \<and> ?sim < 0.8 \<and> 75 < q_score (evaluateSnippetQuality (code lc))"
    if s: "s \<in> ?S" "sn_snippet s = ChangeBody lc" "winningAlternative s = Some wc" for s
  proof -
    obtain cmp where cmp:
      "cmp \<in> set (findSimilarChangeRegions sim (extractCodeChanges (patch winningFile))
                      (extractCodeChanges (patch losingFile)))"
      "75 < q_score (evaluateSnippetQuality (code (losingSnippet cmp)))"
      "s = improvement_of losingFile losingPR cmp"
      using s(1) unfolding snippet_iff by blast
    have "losingSnippet cmp = lc" "winningSnippet cmp = wc"
      using s(2,3) cmp(3) by (simp_all add: improvement_of_def Let_def)
    with cmp(1,2) show ?thesis
      unfolding comparison_iff by auto
  qed
  have made: "improvement_of losingFile losingPR ?cmp \<in> ?S"
    if "0.3 < ?sim" "?sim < 0.8" "75 < q_score (evaluateSnippetQuality (code lc))"
  proof -
    have "?cmp \<in> set (findSimilarChangeRegions sim (extractCodeChanges (patch winningFile))
                       (extractCodeChanges (patch losingFile)))"
      unfolding comparison_iff using that(1,2) assms by blast
    moreover have "75 < q_score (evaluateSnippetQuality (code (losingSnippet ?cmp)))"
      using that(3) by simp
    ultimately show ?thesis
      unfolding snippet_iff by blast
  qed
  have shape: "sn_type (improvement_of losingFile losingPR ?cmp) = Improvement
               \<and> sn_snippet (improvement_of losingFile losingPR ?cmp) = ChangeBody lc
               \<and> winningAlternative (improvement_of losingFile losingPR ?cmp) = Some wc"
    by (simp add: improvement_of_def Let_def)
  have "(\<exists>s \<in> ?S. sn_type s = Improvement \<and> sn_snippet s = ChangeBody lc
            \<and> winningAlternative s = Some wc)
        \<longleftrightarrow> (0.3 < ?sim \<and> ?sim < 0.8 \<and> 75 < q_score (evaluateSnippetQuality (code lc)))"
    using body made shape by blast
  moreover have "\<not> (\<exists>s \<in> ?S. sn_snippet s = ChangeBody lc \<and> winningAlternative s = Some wc)"
    if "0.8 \<le> ?sim"
    using body that by fastforce
  ultimately show ?thesis by blast
qed

lemma ex_changes:
  "extractCodeChanges (patch ex_losingFile) = [ex_losingChange]
   \<and> extractCodeChanges (patch ex_winningFile) = [ex_winningChange]"
  by code_simp

lemma ex_losing_quality: "q_score (evaluateSnippetQuality (code ex_losingChange)) = 80"
  by code_simp

lemma ex_similarity:
  "calculateCodeSimilarity levenshtein_ratio (code ex_winningChange) (code ex_losingChange)
   = 1 / 3"
  by code_simp

theorem C6_improvement_iff_witness:
  "ex_losingChange \<in> set (extractCodeChanges (patch ex_losingFile))
   \<and> ex_winningChange \<in> set (extractCodeChanges (patch ex_winningFile))
   \<and> calculateCodeSimilarity levenshtein_ratio (code ex_winningChange) (code ex_losingChange)
        = 1 / 3
   \<and> q_score (evaluateSnippetQuality (code ex_losingChange)) = 80
   \<and> (\<exists>s \<in> set (compareFileImplementations levenshtein_ratio ex_winningFile ex_losingFile
                     ex_losingPR).
         sn_type s = Improvement \<and> sn_snippet s = ChangeBody ex_losingChange
         \<and> winningAlternative s = Some ex_winningChange)"
proof -
  have h1: "ex_losingChange \<in> set (extractCodeChanges (patch ex_losingFile))"
    and h2: "ex_winningChange \<in> set (extractCodeChanges (patch ex_winningFile))"
    using ex_changes by simp_all
  show ?thesis
    using h1 h2 ex_similarity ex_losing_quality
      C6_improvement_iff[OF h1 h2, of levenshtein_ratio ex_losingPR]
    by simp
qed

end
